theory Spec2Isabelle
  imports Complex_Main "HOL-Library.AList"
begin

section \<open>The worker-process orchestration core of \<open>pt_hub.py\<close>\<close>

text \<open>
  The hub (\<open>class PowerTraderHub\<close>) launches, polls and stops the trainer, the neural
  runner and the trader scripts, and reads their small status files every UI tick.
  The model separates the hub's own attributes (a record, passed and returned) from what
  lies outside the Python object: the file system, the process table, the clock and the
  dialogs and timers of the UI (a second record, passed and returned as well, so that
  whatever happens between two calls of the hub is a change of that record).

  Conventions of the model. Paths are strings and \<open>os.path.abspath\<close> is the identity
  (the hub builds absolute folders); \<open>time.time()\<close> and file modification times are real
  numbers, rounding is not modelled; environment variables, log queues and reader threads
  are left out, and \<open>threading.Thread.start\<close>, \<open>time.time\<close>, \<open>messagebox\<close> and
  \<open>self.after\<close> are taken to return normally.
\<close>

type_synonym path = string
type_synonym mtime = real

subsection \<open>The mtime-cached readers\<close>

text \<open>
  What the cached readers see of the disk: \<open>os.path.getmtime\<close> (\<open>None\<close> when it
  raises), \<open>os.path.exists\<close>, and the outcome of reading and converting a file:
  \<open>number_in\<close> is \<open>int(float(text))\<close> of the stripped text, \<open>json_in\<close> is
  \<open>json.load\<close>; both are \<open>None\<close> when opening, reading or converting raises.
\<close>

record 'j disk =
  getmtime :: "path \<Rightarrow> mtime option"
  path_exists :: "path \<Rightarrow> bool"
  number_in :: "path \<Rightarrow> int option"
  json_in :: "path \<Rightarrow> 'j option"

text \<open>
  \<open>read_int_from_file\<close> (line 912): every exception is swallowed and becomes 0.
\<close>

definition read_int_from_file :: "'j disk \<Rightarrow> path \<Rightarrow> int" where
  "read_int_from_file d p = (case number_in d p of None \<Rightarrow> 0 | Some n \<Rightarrow> n)"

text \<open>
  \<open>self._neural_overview_cache\<close>: path to \<open>(mtime, value)\<close>. The field \<open>loaded\<close>
  is not in the source: it lists, in order, the paths on which the loader was run, so
  that "without re-reading" can be stated.
\<close>

record 'v overview =
  neural_overview_cache :: "path \<rightharpoonup> (mtime \<times> 'v)"
  loaded :: "path list"

text \<open>
  \<open>_cached(path, loader, default)\<close>, lines 7052-7064. The result is the pair
  \<open>(value, mtime)\<close> of the source. The loaders passed in the source
  (\<open>read_int_from_file\<close>, \<open>_load_short_from_memory_json\<close>) swallow their own
  exceptions, so the loader is a total function here.
\<close>

definition cached ::
  "'j disk \<Rightarrow> (path \<Rightarrow> 'v) \<Rightarrow> 'v \<Rightarrow> 'v overview \<Rightarrow> path \<Rightarrow> ('v \<times> mtime option) \<times> 'v overview" where
  "cached d loader dflt s p =
     (case getmtime d p of
        None \<Rightarrow> ((dflt, None), s)
      | Some m \<Rightarrow>
          (let miss = (let v = loader p in
                         ((v, Some m),
                          s\<lparr>neural_overview_cache := (neural_overview_cache s)(p \<mapsto> (m, v)),
                            loaded := loaded s @ [p]\<rparr>))
           in case neural_overview_cache s p of
                None \<Rightarrow> miss
              | Some hit \<Rightarrow> if fst hit = m then ((snd hit, Some m), s) else miss))"

text \<open>
  \<open>self._trainer_status_cache\<close> of \<open>_tick\<close>: coin to \<open>{"mtime", "data"}\<close>; \<open>decoded\<close>
  lists the files on which \<open>json.load\<close> was attempted (not in the source).
\<close>

record 'j status_cache =
  trainer_status_cache :: "string \<rightharpoonup> (mtime \<times> 'j)"
  decoded :: "path list"

text \<open>
  The cached read of \<open>trainer_status.json\<close> in \<open>_tick\<close>, lines 6281-6292, for coin
  \<open>c\<close> and file \<open>p\<close>. The result is \<open>None\<close> when the file does not exist (the source
  then reads nothing), else the dictionary \<open>st\<close>; \<open>dflt\<close> stands for \<open>{}\<close>, the value
  of the \<open>except\<close> branch.
\<close>

definition trainer_status_read ::
  "'j disk \<Rightarrow> 'j \<Rightarrow> 'j status_cache \<Rightarrow> string \<Rightarrow> path \<Rightarrow> 'j option \<times> 'j status_cache" where
  "trainer_status_read d dflt s c p =
     (if \<not> path_exists d p then (None, s)
      else case getmtime d p of
             None \<Rightarrow> (Some dflt, s)
           | Some m \<Rightarrow>
               (let load = (case json_in d p of
                              None \<Rightarrow> (Some dflt, s\<lparr>decoded := decoded s @ [p]\<rparr>)
                            | Some st \<Rightarrow>
                                (Some st,
                                 s\<lparr>trainer_status_cache := (trainer_status_cache s)(c \<mapsto> (m, st)),
                                   decoded := decoded s @ [p]\<rparr>))
                in case trainer_status_cache s c of
                     None \<Rightarrow> load
                   | Some hit \<Rightarrow> if fst hit = m then (Some (snd hit), s) else load))"

subsection \<open>The world outside the hub\<close>

type_synonym pid = nat

text \<open>
  \<open>runner_ready.json\<close> as \<open>_read_runner_ready\<close> sees it: no file, a file that does
  not decode to a dictionary, or a dictionary with the truth value of its \<open>"ready"\<close>
  entry (false when the key is missing) and its \<open>"stage"\<close>; the timestamp is left out.
\<close>

datatype ready_file = Absent | Undecodable | ReadyDict (ready: bool) (stage: string)

text \<open>
  \<open>trainer_status.json\<close> as \<open>_safe_read_json\<close> followed by \<open>isinstance(st, dict)\<close>
  sees it: \<open>NoStatus\<close> when the read gives \<open>None\<close> or something that is no dictionary,
  else \<open>str(st.get("state", ""))\<close>.
\<close>

datatype status_json = NoStatus | StatusDict string

text \<open>
  What the hub does to the outside, in program order. \<open>SetPending\<close> records an
  assignment to \<open>self._auto_start_trader_pending\<close>; it is kept in the same list so that
  the order of that assignment and of the calls around it can be stated.
\<close>

datatype event =
    Spawned pid "string list" path
  | Terminate pid
  | ShowError string string
  | ShowInfo string
  | Print string
  | SetPending bool
  | WriteReady bool string
  | WriteStatus path string

text \<open>The callbacks the hub hands to \<open>self.after\<close>.\<close>

datatype callback = StartNeuralThenTrader | PollForCoins "string list" | PollSingle

text \<open>
  \<open>alive\<close> holds the processes for which \<open>Popen.poll()\<close> is \<open>None\<close>;
  \<open>popen_raises\<close> tells for a command line whether \<open>subprocess.Popen\<close> raises;
  \<open>writable\<close> tells whether creating or writing a path succeeds (a write that fails
  leaves the path as it was); \<open>stamp_of\<close> is \<open>float(text or "0")\<close> of a timestamp
  file, \<open>None\<close> when reading or converting raises (a NaN behaves the same in both
  comparisons of the source, an infinity is not modelled); \<open>timers\<close> is the queue of
  \<open>self.after(ms, callback)\<close>.
\<close>

record world =
  alive :: "pid set"
  next_pid :: pid
  popen_raises :: "string list \<Rightarrow> bool"
  isfile :: "path \<Rightarrow> bool"
  isdir :: "path \<Rightarrow> bool"
  writable :: "path \<Rightarrow> bool"
  clock :: real
  runner_ready_json :: ready_file
  status_json_of :: "path \<Rightarrow> status_json"
  stamp_of :: "path \<Rightarrow> real option"
  events :: "event list"
  timers :: "(nat \<times> callback) list"

subsection \<open>The hub's attributes\<close>

text \<open>\<open>@dataclass ProcInfo\<close> (line 2470); \<open>proc\<close> is the \<open>Popen\<close> object, known by its pid.\<close>

record ProcInfo =
  name :: string
  path :: path
  proc :: "pid option"
  start_time :: "real option"

text \<open>
  \<open>@dataclass LogProc\<close> (line 2479), without its queue and thread. It has a field
  \<open>info\<close> and no field \<open>proc\<close>.
\<close>

record LogProc =
  info :: ProcInfo
  is_trainer :: bool
  coin :: "string option"

datatype error = AttributeError

text \<open>
  The attributes of \<open>PowerTraderHub\<close> that the process control reads and writes. The
  two script names are \<open>os.path.basename(str(self.settings.get(...)))\<close>;
  \<open>proc_trainer_path\<close> and \<open>proc_neural_path\<close> are read with \<open>getattr(..., None)\<close>;
  \<open>trainers\<close> and \<open>neural_runners\<close> are dictionaries in insertion order, and
  \<open>neural_runners\<close> is \<open>None\<close> while the attribute does not exist (\<open>hasattr\<close>);
  \<open>trader_poll_count\<close> is \<open>None\<close> while \<open>_trader_poll_count\<close> does not exist.
\<close>

record hub =
  project_dir :: path
  hub_dir :: path
  coins :: "string list"
  coin_folders :: "string \<rightharpoonup> path"
  dry_run_mode :: bool
  script_neural_trainer :: string
  script_neural_runner2 :: string
  proc_trainer_path :: "path option"
  proc_neural_path :: "path option"
  proc_neural :: ProcInfo
  proc_trader :: ProcInfo
  trainers :: "(string \<times> LogProc) list"
  neural_runners :: "(string \<times> LogProc) list option"
  auto_start_trader_pending :: bool
  auto_start_runner_after_training :: bool
  trader_poll_count :: "nat option"

subsection \<open>Paths and coin names\<close>

definition join :: "path \<Rightarrow> path \<Rightarrow> path" where
  "join a b = a @ ''/'' @ b"

definition sys_executable :: string where
  "sys_executable = ''python''"

text \<open>\<open>str.upper\<close> and \<open>str.strip\<close> on ASCII text.\<close>

definition upper_char :: "char \<Rightarrow> char" where
  "upper_char c =
     (case map_of (zip ''abcdefghijklmnopqrstuvwxyz'' ''ABCDEFGHIJKLMNOPQRSTUVWXYZ'') c of
        None \<Rightarrow> c
      | Some u \<Rightarrow> u)"

definition is_space :: "char \<Rightarrow> bool" where
  "is_space c = ((of_char c :: nat) = 32 \<or> (9 \<le> (of_char c :: nat) \<and> (of_char c :: nat) \<le> 13))"

definition strip :: "string \<Rightarrow> string" where
  "strip s = rev (dropWhile is_space (rev (dropWhile is_space s)))"

definition upper :: "string \<Rightarrow> string" where
  "upper s = map upper_char s"

definition runner_ready_path :: "hub \<Rightarrow> path" where
  "runner_ready_path h = join (hub_dir h) ''runner_ready.json''"

definition log_event :: "event \<Rightarrow> world \<Rightarrow> world" where
  "log_event e w = w\<lparr>events := events w @ [e]\<rparr>"

subsection \<open>Sample disks\<close>

text \<open>
  A disk on which every path has the modification time \<open>m\<close>, the number \<open>n\<close> and the
  JSON value \<open>j\<close>, and an empty cache of each kind, for the concrete runs below.
\<close>

definition sample_disk :: "mtime option \<Rightarrow> int option \<Rightarrow> 'j option \<Rightarrow> 'j disk" where
  "sample_disk m n j =
     \<lparr>getmtime = (\<lambda>_. m), path_exists = (\<lambda>_. True), number_in = (\<lambda>_. n), json_in = (\<lambda>_. j)\<rparr>"

definition empty_overview :: "'v overview" where
  "empty_overview = \<lparr>neural_overview_cache = Map.empty, loaded = []\<rparr>"

definition empty_status_cache :: "'j status_cache" where
  "empty_status_cache = \<lparr>trainer_status_cache = Map.empty, decoded = []\<rparr>"

subsection \<open>Starting and stopping one process\<close>

text \<open>\<open>p.proc and p.proc.poll() is None\<close>.\<close>

definition proc_running :: "world \<Rightarrow> ProcInfo \<Rightarrow> bool" where
  "proc_running w p = (case proc p of None \<Rightarrow> False | Some k \<Rightarrow> k \<in> alive w)"

text \<open>A \<open>subprocess.Popen\<close> that returns: a new live process.\<close>

definition spawn :: "string list \<Rightarrow> path \<Rightarrow> world \<Rightarrow> pid \<times> world" where
  "spawn argv cwd w =
     (next_pid w,
      w\<lparr>alive := insert (next_pid w) (alive w), next_pid := Suc (next_pid w),
        events := events w @ [Spawned (next_pid w) argv cwd]\<rparr>)"

text \<open>\<open>_start_process\<close>, lines 5288-5317.\<close>

definition start_process :: "hub \<Rightarrow> world \<Rightarrow> ProcInfo \<Rightarrow> ProcInfo \<times> world" where
  "start_process h w p =
     (if proc_running w p then (p, w)
      else if \<not> isfile w (path p) then (p, log_event (ShowError ''Missing script'' (path p)) w)
      else if popen_raises w [sys_executable, ''-u'', path p]
        then (p, log_event (ShowError ''Failed to start'' (name p)) w)
      else (let (k, w') = spawn [sys_executable, ''-u'', path p] (project_dir h) w
            in (p\<lparr>proc := Some k, start_time := Some (clock w)\<rparr>, w')))"

text \<open>
  \<open>_stop_process\<close>, lines 5320-5330: \<open>terminate()\<close> is a request; whether and when
  the process leaves \<open>alive\<close> is up to the world.
\<close>

definition stop_process :: "world \<Rightarrow> ProcInfo \<Rightarrow> ProcInfo \<times> world" where
  "stop_process w p =
     (case proc p of
        None \<Rightarrow> (p, w)
      | Some k \<Rightarrow> if k \<in> alive w then (p\<lparr>start_time := None\<rparr>, log_event (Terminate k) w)
                  else (p, w))"

text \<open>
  Writing \<open>{"timestamp": ..., "ready": b, "stage": st}\<close> to \<open>runner_ready.json\<close>
  inside \<open>try ... except Exception: pass\<close>.
\<close>

definition write_runner_ready :: "hub \<Rightarrow> world \<Rightarrow> bool \<Rightarrow> string \<Rightarrow> world" where
  "write_runner_ready h w b st =
     (if writable w (runner_ready_path h)
      then w\<lparr>runner_ready_json := ReadyDict b st, events := events w @ [WriteReady b st]\<rparr>
      else w)"

text \<open>\<open>bool(self._read_runner_ready().get("ready", False))\<close>, lines 5399-5408 and 5422.\<close>

definition runner_is_ready :: "world \<Rightarrow> bool" where
  "runner_is_ready w = (case runner_ready_json w of ReadyDict b st \<Rightarrow> b | _ \<Rightarrow> False)"

text \<open>\<open>start_neural\<close>, lines 5332-5348.\<close>

definition start_neural :: "hub \<Rightarrow> world \<Rightarrow> hub \<times> world" where
  "start_neural h w =
     (let w1 = write_runner_ready h w False ''starting'';
          (p, w2) = start_process h w1 (proc_neural h)
      in (h\<lparr>proc_neural := p\<rparr>, w2))"

definition start_trader :: "hub \<Rightarrow> world \<Rightarrow> hub \<times> world" where
  "start_trader h w = (let (p, w1) = start_process h w (proc_trader h) in (h\<lparr>proc_trader := p\<rparr>, w1))"

definition stop_neural :: "hub \<Rightarrow> world \<Rightarrow> hub \<times> world" where
  "stop_neural h w = (let (p, w1) = stop_process w (proc_neural h) in (h\<lparr>proc_neural := p\<rparr>, w1))"

definition stop_trader :: "hub \<Rightarrow> world \<Rightarrow> hub \<times> world" where
  "stop_trader h w = (let (p, w1) = stop_process w (proc_trader h) in (h\<lparr>proc_trader := p\<rparr>, w1))"

text \<open>\<open>start_trader_for_coin\<close>, lines 5575-5580, and the loop over the coins around it.\<close>

definition start_trader_for_coin :: "hub \<Rightarrow> world \<Rightarrow> string \<Rightarrow> hub \<times> world" where
  "start_trader_for_coin h w c = start_trader h w"

fun start_trader_for_coins :: "hub \<Rightarrow> world \<Rightarrow> string list \<Rightarrow> hub \<times> world" where
  "start_trader_for_coins h w [] = (h, w)"
| "start_trader_for_coins h w (c # cs) =
     (let (h1, w1) = start_trader_for_coin h w c in start_trader_for_coins h1 w1 cs)"

subsection \<open>Per-coin runners and trainers\<close>

text \<open>
  The block that prepares an alt coin's folder (lines 5484-5494 and 5869-5881), run for
  every coin but BTC: create the folder when it is missing, copy the script from the main
  folder when it is there; an exception leaves the block.
\<close>

definition seed_folder :: "world \<Rightarrow> path \<Rightarrow> path \<Rightarrow> path \<Rightarrow> world" where
  "seed_folder w cwd src dst =
     (if \<not> isdir w cwd \<and> \<not> writable w cwd then w
      else (let w1 = (if isdir w cwd then w else w\<lparr>isdir := (isdir w)(cwd := True)\<rparr>)
            in if isfile w1 src \<and> writable w1 dst
               then w1\<lparr>isfile := (isfile w1)(dst := True)\<rparr> else w1))"

text \<open>
  The script to run (lines 5496-5509 and 5883-5899): the one in the coin's folder, else the
  fallback (\<open>proc_..._path\<close> when set and present, the project's copy otherwise), else
  none.
\<close>

definition resolve_script :: "world \<Rightarrow> path \<Rightarrow> path \<Rightarrow> path option \<Rightarrow> path option" where
  "resolve_script w script project_copy preferred =
     (if isfile w script then Some script
      else (let fallback = (case preferred of
                              None \<Rightarrow> project_copy
                            | Some q \<Rightarrow> if q \<noteq> [] \<and> isfile w q then q else project_copy)
            in if isfile w fallback then Some fallback else None))"

definition python_exec :: "hub \<Rightarrow> world \<Rightarrow> path" where
  "python_exec h w =
     (let venv = join (join (join (project_dir h) ''.venv'') ''bin'') ''python''
      in if isfile w venv then venv else sys_executable)"

definition coin_cwd :: "hub \<Rightarrow> string \<Rightarrow> path" where
  "coin_cwd h c = (case coin_folders h c of None \<Rightarrow> project_dir h | Some d \<Rightarrow> d)"

text \<open>
  The world after the folder of coin \<open>c\<close> was prepared for the script \<open>script\<close>, and the
  script that is then run, if one is found.
\<close>

definition seeded :: "hub \<Rightarrow> world \<Rightarrow> string \<Rightarrow> string \<Rightarrow> world" where
  "seeded h w c script =
     (if c \<noteq> ''BTC''
      then seed_folder w (coin_cwd h c) (join (coin_cwd h ''BTC'') script) (join (coin_cwd h c) script)
      else w)"

definition script_for :: "hub \<Rightarrow> world \<Rightarrow> string \<Rightarrow> string \<Rightarrow> path option \<Rightarrow> path option" where
  "script_for h w c script preferred =
     resolve_script (seeded h w c script) (join (coin_cwd h c) script)
       (join (project_dir h) script) preferred"

text \<open>
  \<open>start_neural_for_coin\<close>, lines 5470-5539. The first component of the result is the
  exception that leaves the function, if any. On line 5512 the duplicate check reads
  \<open>self.neural_runners[coin].proc\<close>; the registry holds \<open>LogProc\<close> objects, which have no
  attribute \<open>proc\<close>, so the check raises as soon as the coin is registered.
\<close>

definition start_neural_for_coin :: "hub \<Rightarrow> world \<Rightarrow> string \<Rightarrow> error option \<times> hub \<times> world" where
  "start_neural_for_coin h w c0 =
     (let c = upper (strip c0) in
      if c = [] then (None, h, w)
      else
        (let cwd = coin_cwd h c;
             w1 = seeded h w c (script_neural_runner2 h)
         in case script_for h w c (script_neural_runner2 h) (proc_neural_path h) of
              None \<Rightarrow> (None, h, log_event (ShowError ''Missing runner'' c) w1)
            | Some runner_path \<Rightarrow>
                if (case neural_runners h of None \<Rightarrow> False | Some d \<Rightarrow> map_of d c \<noteq> None)
                then (Some AttributeError, h, w1)
                else if popen_raises w1 [python_exec h w1, ''-u'', runner_path, c]
                then (None, h, log_event (ShowError ''Failed to start'' c) w1)
                else (let (k, w2) = spawn [python_exec h w1, ''-u'', runner_path, c] cwd w1;
                          lp = \<lparr>info = \<lparr>name = ''NeuralRunner-'' @ c, path = runner_path,
                                          proc = Some k, start_time = None\<rparr>,
                                 is_trainer = False, coin = Some c\<rparr>
                      in (None,
                          h\<lparr>neural_runners :=
                              Some (AList.update c lp
                                     (case neural_runners h of None \<Rightarrow> [] | Some d \<Rightarrow> d))\<rparr>,
                          w2))))"

fun start_neural_for_coins :: "hub \<Rightarrow> world \<Rightarrow> string list \<Rightarrow> error option \<times> hub \<times> world" where
  "start_neural_for_coins h w [] = (None, h, w)"
| "start_neural_for_coins h w (c # cs) =
     (case start_neural_for_coin h w c of
        (Some e, h1, w1) \<Rightarrow> (Some e, h1, w1)
      | (None, h1, w1) \<Rightarrow> start_neural_for_coins h1 w1 cs)"

text \<open>Writing \<open>{"state": st, ...}\<close> to a \<open>trainer_status.json\<close>, best effort.\<close>

definition write_status :: "world \<Rightarrow> path \<Rightarrow> string \<Rightarrow> world" where
  "write_status w p st =
     (if writable w p
      then w\<lparr>status_json_of := (status_json_of w)(p := StatusDict st),
             events := events w @ [WriteStatus p st]\<rparr>
      else w)"

text \<open>\<open>_start_single_trainer\<close>, lines 5851-5954.\<close>

definition start_single_trainer :: "hub \<Rightarrow> world \<Rightarrow> string \<Rightarrow> hub \<times> world" where
  "start_single_trainer h w c0 =
     (let c = upper (strip c0) in
      if c = [] then (h, w)
      else
        (let cwd = coin_cwd h c;
             w1 = seeded h w c (script_neural_trainer h)
         in case script_for h w c (script_neural_trainer h) (proc_trainer_path h) of
              None \<Rightarrow> (h, log_event (ShowError ''Missing trainer'' c) w1)
            | Some trainer_path \<Rightarrow>
                if (case map_of (trainers h) c of None \<Rightarrow> False | Some lp \<Rightarrow> proc_running w1 (info lp))
                then (h, w1)
                else if popen_raises w1 [python_exec h w1, ''-u'', trainer_path, c]
                then (h, log_event (ShowError ''Failed to start'' c) w1)
                else (let (k, w2) = spawn [python_exec h w1, ''-u'', trainer_path, c] cwd w1;
                          lp = \<lparr>info = \<lparr>name = ''Trainer-'' @ c, path = trainer_path,
                                          proc = Some k, start_time = None\<rparr>,
                                 is_trainer = True, coin = Some c\<rparr>
                      in (h\<lparr>trainers := AList.update c lp (trainers h)\<rparr>,
                          write_status w2 (join cwd ''trainer_status.json'') ''TRAINING''))))"

subsection \<open>Training state\<close>

definition stamp_path :: "path \<Rightarrow> path" where
  "stamp_path folder = join folder ''trainer_last_training_time.txt''"

text \<open>The stamp check of the \<open>TRAINING\<close> branch, lines 5610-5619.\<close>

definition training_stamp_ok :: "world \<Rightarrow> path \<Rightarrow> bool" where
  "training_stamp_ok w sp =
     (if isfile w sp
      then (case stamp_of w sp of
              None \<Rightarrow> False
            | Some ts \<Rightarrow> 0 < ts \<and> clock w - ts \<le> 14 * 24 * 60 * 60)
      else False)"

text \<open>The fallback stamp check, lines 5624-5635.\<close>

definition fallback_stamp_ok :: "world \<Rightarrow> path \<Rightarrow> bool" where
  "fallback_stamp_ok w sp =
     (if \<not> isfile w sp then False
      else (case stamp_of w sp of
              None \<Rightarrow> False
            | Some ts \<Rightarrow> if ts \<le> 0 then False else clock w - ts \<le> 14 * 24 * 60 * 60))"

text \<open>\<open>_coin_is_trained\<close>, lines 5583-5635.\<close>

definition coin_is_trained :: "hub \<Rightarrow> world \<Rightarrow> string \<Rightarrow> bool" where
  "coin_is_trained h w c0 =
     (let c = strip (upper c0) in
      case coin_folders h c of
        None \<Rightarrow> False
      | Some folder \<Rightarrow>
          if folder = [] \<or> \<not> isdir w folder then False
          else if dry_run_mode h \<and> isfile w (join folder ''trained_model_saved.txt'') then True
          else (case status_json_of w (join folder ''trainer_status.json'') of
                  NoStatus \<Rightarrow> fallback_stamp_ok w (stamp_path folder)
                | StatusDict s \<Rightarrow>
                    (let state = upper s in
                     if state = ''FINISHED'' then True
                     else if state = ''TRAINED'' then True
                     else if state = ''TRAINING'' then training_stamp_ok w (stamp_path folder)
                     else fallback_stamp_ok w (stamp_path folder))))"

text \<open>
  \<open>_training_status_map\<close>, lines 5685-5703; \<open>running\<close> is the value of
  \<open>self._running_trainers()\<close>, which only separates \<open>TRAINING\<close> from \<open>NOT TRAINED\<close>.
\<close>

definition training_status_map :: "hub \<Rightarrow> world \<Rightarrow> string list \<Rightarrow> (string \<times> string) list" where
  "training_status_map h w running =
     foldl (\<lambda>out c. AList.update c
                      (if coin_is_trained h w c then ''TRAINED''
                       else if c \<in> set running then ''TRAINING'' else ''NOT TRAINED'') out)
           [] (coins h)"

text \<open>\<open>all_trained\<close> of \<open>_tick\<close>, line 6259.\<close>

definition all_trained :: "hub \<Rightarrow> world \<Rightarrow> string list \<Rightarrow> bool" where
  "all_trained h w running =
     (let status_map = training_status_map h w running
      in if status_map \<noteq> [] then list_all (\<lambda>v. v = ''TRAINED'') (map snd status_map) else False)"

subsection \<open>The start-all sequence\<close>

text \<open>
  The flow gate of \<open>_tick\<close>, lines 6258-6259 and 6322-6327; the labels, the progress bar
  and the refreshes of \<open>_tick\<close> are left out.
\<close>

definition tick :: "hub \<Rightarrow> world \<Rightarrow> string list \<Rightarrow> hub \<times> world" where
  "tick h w running =
     (if all_trained h w running \<and> auto_start_runner_after_training h
      then (h\<lparr>auto_start_runner_after_training := False, auto_start_trader_pending := True\<rparr>,
            (log_event (SetPending True) w)\<lparr>timers := timers w @ [(5, StartNeuralThenTrader)]\<rparr>)
      else (h, w))"

text \<open>\<open>_start_neural_then_trader\<close>, lines 5458-5468.\<close>

definition start_neural_then_trader :: "hub \<Rightarrow> world \<Rightarrow> error option \<times> hub \<times> world" where
  "start_neural_then_trader h w =
     (let h1 = h\<lparr>auto_start_trader_pending := True, trader_poll_count := Some 0\<rparr>;
          w1 = log_event (SetPending True) w;
          trained_coins = filter (coin_is_trained h1 w1) (coins h1)
      in case start_neural_for_coins h1 w1 trained_coins of
           (Some e, h2, w2) \<Rightarrow> (Some e, h2, w2)
         | (None, h2, w2) \<Rightarrow>
             (None, h2, w2\<lparr>timers := timers w2 @ [(500, PollForCoins trained_coins)]\<rparr>))"

text \<open>
  How one run of a poll callback ends. The source returns nothing; the branch taken shows
  in what it prints and in whether it calls \<open>self.after\<close> again.
\<close>

datatype poll_outcome = NotPending | Cancelled | Ready | TimedOut | Rescheduled

definition count_of :: "hub \<Rightarrow> nat" where
  "count_of h = (case trader_poll_count h of None \<Rightarrow> 0 | Some n \<Rightarrow> n)"

text \<open>\<open>_poll_runner_ready_then_start_trader_for_coins\<close>, lines 5541-5573.\<close>

definition poll_runner_ready_then_start_trader_for_coins ::
  "hub \<Rightarrow> world \<Rightarrow> string list \<Rightarrow> poll_outcome \<times> hub \<times> world" where
  "poll_runner_ready_then_start_trader_for_coins h w cs =
     (if \<not> auto_start_trader_pending h then (NotPending, h, w)
      else if \<not> proc_running w (proc_neural h)
      then (Cancelled, h\<lparr>auto_start_trader_pending := False\<rparr>,
            log_event (SetPending False)
              (log_event (Print ''[Hub] Neural runner is not running. Cancelling trader auto-start.'') w))
      else if runner_is_ready w
      then (let (h1, w1) =
                  start_trader_for_coins (h\<lparr>auto_start_trader_pending := False\<rparr>)
                    (log_event (SetPending False)
                      (log_event (Print ''[Hub] Runner is ready. Starting trader now for all trained coins.'') w))
                    cs
            in (Ready, h1, w1))
      else (let h1 = h\<lparr>trader_poll_count := Some (count_of h + 1)\<rparr> in
            if count_of h1 > 20
            then (let (h2, w2) =
                        start_trader_for_coins (h1\<lparr>auto_start_trader_pending := False\<rparr>)
                          (log_event (SetPending False)
                            (log_event (Print ''[Hub] Timed out waiting for runner ready. Starting trader anyway for all trained coins.'') w))
                          cs
                  in (TimedOut, h2, w2))
            else (Rescheduled, h1, w\<lparr>timers := timers w @ [(250, PollForCoins cs)]\<rparr>)))"

text \<open>\<open>_poll_runner_ready_then_start_trader\<close>, lines 5410-5445.\<close>

definition poll_runner_ready_then_start_trader :: "hub \<Rightarrow> world \<Rightarrow> poll_outcome \<times> hub \<times> world" where
  "poll_runner_ready_then_start_trader h w =
     (if \<not> auto_start_trader_pending h then (NotPending, h, w)
      else if \<not> proc_running w (proc_neural h)
      then (Cancelled, h\<lparr>auto_start_trader_pending := False\<rparr>,
            log_event (SetPending False)
              (log_event (Print ''[Hub] Neural runner is not running. Cancelling trader auto-start.'') w))
      else if runner_is_ready w
      then (let h1 = h\<lparr>auto_start_trader_pending := False\<rparr>;
                w1 = log_event (SetPending False)
                       (log_event (Print ''[Hub] Runner is ready. Starting trader now.'') w);
                (h2, w2) = (if \<not> proc_running w1 (proc_trader h1) then start_trader h1 w1 else (h1, w1))
            in (Ready, h2, w2))
      else (let h1 = h\<lparr>trader_poll_count := Some (count_of h + 1)\<rparr> in
            if count_of h1 > 20
            then (let h2 = h1\<lparr>auto_start_trader_pending := False\<rparr>;
                      w2 = log_event (SetPending False)
                             (log_event (Print ''[Hub] Timed out waiting for runner ready. Starting trader anyway.'') w);
                      (h3, w3) = (if \<not> proc_running w2 (proc_trader h2) then start_trader h2 w2 else (h2, w2))
                  in (TimedOut, h3, w3))
            else (Rescheduled, h1, w\<lparr>timers := timers w @ [(250, PollSingle)]\<rparr>)))"

text \<open>
  One run of the poll callback: of the per-coin poll for \<open>Some cs\<close>, of the single-runner
  poll for \<open>None\<close>.
\<close>

definition poll_step :: "string list option \<Rightarrow> hub \<Rightarrow> world \<Rightarrow> poll_outcome \<times> hub \<times> world" where
  "poll_step v h w =
     (case v of
        None \<Rightarrow> poll_runner_ready_then_start_trader h w
      | Some cs \<Rightarrow> poll_runner_ready_then_start_trader_for_coins h w cs)"

text \<open>A timer that fires leaves the queue.\<close>

definition fired :: "nat \<times> callback \<Rightarrow> world \<Rightarrow> world" where
  "fired t w = w\<lparr>timers := remove1 t (timers w)\<rparr>"

definition poll_timer :: "string list option \<Rightarrow> nat \<times> callback" where
  "poll_timer v = (250, case v of None \<Rightarrow> PollSingle | Some cs \<Rightarrow> PollForCoins cs)"

text \<open>
  The chain of poll callbacks: each run either ends the chain or schedules the next run.
  Between two runs the world moves on its own (processes exit, the runner writes its
  file): \<open>env i\<close> turns the world the hub left behind into the world that run \<open>i\<close> sees.
  The result counts the runs made.
\<close>

function run_poll ::
  "(nat \<Rightarrow> world \<Rightarrow> world) \<Rightarrow> string list option \<Rightarrow> nat \<Rightarrow> hub \<Rightarrow> world
     \<Rightarrow> nat \<times> poll_outcome \<times> hub \<times> world" where
  "run_poll env v i h w =
     (let r = poll_step v h (env i w) in
      if fst r = Rescheduled
      then run_poll env v (Suc i) (fst (snd r)) (fired (poll_timer v) (snd (snd r)))
      else (Suc i, r))"
  by pat_completeness auto
termination
  by (relation "measure (\<lambda>(env, v, i, h, w). 21 - count_of h)")
     (auto simp: poll_step_def poll_runner_ready_then_start_trader_for_coins_def
        poll_runner_ready_then_start_trader_def count_of_def Let_def
        split: option.splits if_splits prod.splits)

declare run_poll.simps [simp del]

subsection \<open>Stopping everything\<close>

text \<open>The loop over \<open>self.trainers.items()\<close> in \<open>stop_all_scripts\<close>, lines 6048-6074.\<close>

fun stop_trainers :: "hub \<Rightarrow> (string \<times> LogProc) list \<Rightarrow> world \<Rightarrow> world" where
  "stop_trainers h [] w = w"
| "stop_trainers h ((c, lp) # rest) w =
     stop_trainers h rest
       (case proc (info lp) of
          None \<Rightarrow> w
        | Some k \<Rightarrow>
            if k \<in> alive w
            then write_status (log_event (Terminate k) w)
                   (join (coin_cwd h c) ''trainer_status.json'') ''STOPPED''
            else w)"

text \<open>\<open>stop_all_scripts\<close>, lines 6035-6090.\<close>

definition stop_all_scripts :: "hub \<Rightarrow> world \<Rightarrow> hub \<times> world" where
  "stop_all_scripts h w =
     (let h1 = h\<lparr>auto_start_trader_pending := False\<rparr>;
          w1 = log_event (SetPending False) w;
          (h2, w2) = stop_trader h1 w1;
          (h3, w3) = stop_neural h2 w2;
          w4 = stop_trainers h3 (trainers h3) w3
      in (h3, write_runner_ready h3 w4 False ''stopped''))"

subsection \<open>A sample installation\<close>

text \<open>
  A hub for the single coin BTC whose folder is the project folder, with nothing started,
  and a world in which the three scripts exist, BTC's training has finished, every write
  and every \<open>Popen\<close> succeeds and no process runs yet. The concrete runs below start
  from these.
\<close>

definition sample_hub :: hub where
  "sample_hub =
     \<lparr>project_dir = ''/pt'', hub_dir = ''/pt/hub_data'', coins = [''BTC''],
      coin_folders = [''BTC'' \<mapsto> ''/pt''], dry_run_mode = False,
      script_neural_trainer = ''pt_trainer.py'', script_neural_runner2 = ''pt_thinker.py'',
      proc_trainer_path = None, proc_neural_path = None,
      proc_neural = \<lparr>name = ''Neural Runner'', path = ''/pt/pt_thinker.py'', proc = None, start_time = None\<rparr>,
      proc_trader = \<lparr>name = ''Trader'', path = ''/pt/pt_trader.py'', proc = None, start_time = None\<rparr>,
      trainers = [], neural_runners = None,
      auto_start_trader_pending = False, auto_start_runner_after_training = False,
      trader_poll_count = None\<rparr>"

definition sample_world :: world where
  "sample_world =
     \<lparr>alive = {}, next_pid = 1, popen_raises = (\<lambda>_. False),
      isfile = (\<lambda>p. p = ''/pt/pt_thinker.py'' \<or> p = ''/pt/pt_trader.py'' \<or> p = ''/pt/pt_trainer.py''),
      isdir = (\<lambda>p. p = ''/pt''), writable = (\<lambda>_. True), clock = 1000,
      runner_ready_json = Absent,
      status_json_of = (\<lambda>p. if p = ''/pt/trainer_status.json'' then StatusDict ''FINISHED'' else NoStatus),
      stamp_of = (\<lambda>_. None), events = [], timers = []\<rparr>"

text \<open>
  The sample installation with everything running: the trader (pid 1), the single runner
  (pid 2) and BTC's trainer (pid 3), and a poll pending.
\<close>

definition running_hub :: hub where
  "running_hub =
     sample_hub
       \<lparr>proc_neural := (proc_neural sample_hub)\<lparr>proc := Some 2, start_time := Some 900\<rparr>,
        proc_trader := (proc_trader sample_hub)\<lparr>proc := Some 1, start_time := Some 900\<rparr>,
        trainers := [(''BTC'', \<lparr>info = \<lparr>name = ''Trainer-BTC'', path = ''/pt/pt_trainer.py'',
                                        proc = Some 3, start_time = None\<rparr>,
                               is_trainer = True, coin = Some ''BTC''\<rparr>)],
        auto_start_trader_pending := True\<rparr>"

definition running_world :: world where
  "running_world = sample_world\<lparr>alive := {1, 2, 3}, next_pid := 4\<rparr>"

text \<open>
  "Reports TRAINED" in the words of the specification, to compare \<open>_coin_is_trained\<close>
  with: the status artifact states \<open>FINISHED\<close> or \<open>TRAINED\<close>, or states \<open>TRAINING\<close>
  while a completion-timestamp file exists whose timestamp is within 14 days.
\<close>

definition spec_reports_trained :: "hub \<Rightarrow> world \<Rightarrow> string \<Rightarrow> bool" where
  "spec_reports_trained h w c0 =
     (case coin_folders h (strip (upper c0)) of
        None \<Rightarrow> False
      | Some folder \<Rightarrow>
          (case status_json_of w (join folder ''trainer_status.json'') of
             NoStatus \<Rightarrow> False
           | StatusDict s \<Rightarrow>
               upper s = ''FINISHED'' \<or> upper s = ''TRAINED'' \<or>
               (upper s = ''TRAINING'' \<and> isfile w (stamp_path folder) \<and>
                (case stamp_of w (stamp_path folder) of
                   None \<Rightarrow> False
                 | Some ts \<Rightarrow> clock w - ts \<le> 14 * 24 * 60 * 60))))"

text \<open>
  The sample world with BTC's trainer stopped by hand (status \<open>STOPPED\<close>) one hundred
  seconds after a training run completed.
\<close>

definition stopped_world :: world where
  "stopped_world =
     sample_world
       \<lparr>isfile := (\<lambda>p. p = ''/pt/trainer_last_training_time.txt'' \<or> isfile sample_world p),
        status_json_of := (\<lambda>p. if p = ''/pt/trainer_status.json'' then StatusDict ''STOPPED'' else NoStatus),
        stamp_of := (\<lambda>p. if p = ''/pt/trainer_last_training_time.txt'' then Some 900 else None)\<rparr>"

text \<open>
  A world in which, whenever the poll looks, the single runner (pid 2) is the only live
  process and the readiness file says \<open>ready = false\<close>.
\<close>

definition never_ready :: "nat \<Rightarrow> world \<Rightarrow> world" where
  "never_ready i w = w\<lparr>alive := {2}, runner_ready_json := ReadyDict False ''starting''\<rparr>"

text \<open>
  The sample installation after Start All, as \<open>start_all_scripts\<close> leaves the flag (line
  5454), once BTC's training has finished; the single runner (pid 2) was started from the
  menu while the training ran.
\<close>

definition start_all_hub :: hub where
  "start_all_hub =
     sample_hub
       \<lparr>proc_neural := (proc_neural sample_hub)\<lparr>proc := Some 2, start_time := Some 900\<rparr>,
        auto_start_runner_after_training := True\<rparr>"

definition start_all_world :: world where
  "start_all_world = sample_world\<lparr>alive := {2}, next_pid := 3\<rparr>"

text \<open>
  The sample installation at the end of a start-all sequence: BTC's runner (pid 1) is
  registered in \<open>neural_runners\<close>, the trader (pid 2) and BTC's trainer (pid 3) run, and
  the single runner of the menu was never started.
\<close>

definition fleet_hub :: hub where
  "fleet_hub =
     sample_hub
       \<lparr>proc_trader := (proc_trader sample_hub)\<lparr>proc := Some 2, start_time := Some 900\<rparr>,
        trainers := [(''BTC'', \<lparr>info = \<lparr>name = ''Trainer-BTC'', path = ''/pt/pt_trainer.py'',
                                        proc = Some 3, start_time = None\<rparr>,
                               is_trainer = True, coin = Some ''BTC''\<rparr>)],
        neural_runners :=
          Some [(''BTC'', \<lparr>info = \<lparr>name = ''NeuralRunner-BTC'', path = ''/pt/pt_thinker.py'',
                                    proc = Some 1, start_time = None\<rparr>,
                           is_trainer = False, coin = Some ''BTC''\<rparr>)]\<rparr>"

definition fleet_world :: world where
  "fleet_world = sample_world\<lparr>alive := {1, 2, 3}, next_pid := 4\<rparr>"

text \<open>
  A world in which, whenever the poll looks, BTC's own runner (pid 1) is the only live
  process and the readiness file says \<open>ready = false\<close>.
\<close>

definition own_runner_never_ready :: "nat \<Rightarrow> world \<Rightarrow> world" where
  "own_runner_never_ready i w = w\<lparr>alive := {1}, runner_ready_json := ReadyDict False ''starting''\<rparr>"

section \<open>Properties\<close>

subsection \<open>The cached readers\<close>

lemma cached_stat_fails:
  "getmtime d p = None \<Longrightarrow> cached d ld dflt s p = ((dflt, None), s)"
  by (simp add: cached_def)

lemma cached_hit:
  "getmtime d p = Some m \<Longrightarrow> neural_overview_cache s p = Some (m, v) \<Longrightarrow>
   cached d ld dflt s p = ((v, Some m), s)"
  by (simp add: cached_def)

lemma cached_miss:
  "getmtime d p = Some m \<Longrightarrow> \<forall>v. neural_overview_cache s p \<noteq> Some (m, v) \<Longrightarrow>
   cached d ld dflt s p =
     ((ld p, Some m),
      s\<lparr>neural_overview_cache := (neural_overview_cache s)(p \<mapsto> (m, ld p)),
        loaded := loaded s @ [p]\<rparr>)"
  by (cases "neural_overview_cache s p") (auto simp: cached_def Let_def)

lemma cached_after:
  "getmtime d p = Some m \<Longrightarrow> cached d ld dflt s p = (r, s1) \<Longrightarrow>
   neural_overview_cache s1 p = Some (m, fst r) \<and> snd r = Some m \<and>
   length (loaded s1) \<le> Suc (length (loaded s))"
  by (cases "neural_overview_cache s p") (auto simp: cached_def Let_def split: if_splits)

lemma cached_twice:
  assumes "getmtime d p = Some m" "getmtime d' p = Some m"
    and "cached d ld dflt s p = (r1, s1)"
  shows "cached d' ld' dflt' s1 p = (r1, s1)"
proof -
  from cached_after[OF assms(1) assms(3)]
  have c: "neural_overview_cache s1 p = Some (m, fst r1)" and m: "snd r1 = Some m" by auto
  show ?thesis using cached_hit[OF assms(2) c] m by (cases r1) simp
qed

lemma status_read_stat_fails:
  "path_exists d p \<Longrightarrow> getmtime d p = None \<Longrightarrow>
   trainer_status_read d dflt s c p = (Some dflt, s)"
  by (simp add: trainer_status_read_def)

lemma status_read_hit:
  "path_exists d p \<Longrightarrow> getmtime d p = Some m \<Longrightarrow> trainer_status_cache s c = Some (m, st) \<Longrightarrow>
   trainer_status_read d dflt s c p = (Some st, s)"
  by (simp add: trainer_status_read_def)

lemma status_read_miss:
  "path_exists d p \<Longrightarrow> getmtime d p = Some m \<Longrightarrow>
   \<forall>st. trainer_status_cache s c \<noteq> Some (m, st) \<Longrightarrow> json_in d p = Some st' \<Longrightarrow>
   trainer_status_read d dflt s c p =
     (Some st',
      s\<lparr>trainer_status_cache := (trainer_status_cache s)(c \<mapsto> (m, st')),
        decoded := decoded s @ [p]\<rparr>)"
  by (cases "trainer_status_cache s c") (auto simp: trainer_status_read_def Let_def)

lemma status_read_decode_fails:
  "path_exists d p \<Longrightarrow> getmtime d p = Some m \<Longrightarrow>
   \<forall>st. trainer_status_cache s c \<noteq> Some (m, st) \<Longrightarrow> json_in d p = None \<Longrightarrow>
   trainer_status_read d dflt s c p = (Some dflt, s\<lparr>decoded := decoded s @ [p]\<rparr>)"
  by (cases "trainer_status_cache s c") (auto simp: trainer_status_read_def Let_def)

text \<open>
  C4. The mtime-cached read (\<open>_cached\<close>, and the read of \<open>trainer_status.json\<close> in
  \<open>_tick\<close>): when the stat fails the default is returned and the cache is untouched;
  when the observed mtime equals the cached entry's mtime the cached value is returned and
  nothing is read or decoded, so that of two reads at the same mtime only the first can
  run the loader; when the mtime differs the file is read and decoded, \<open>(mtime, value)\<close>
  is stored and the new value is returned.
\<close>

theorem cached_read_contract:
  "(getmtime d p = None \<longrightarrow> cached d ld dflt s p = ((dflt, None), s)) \<and>
   (\<forall>m v. getmtime d p = Some m \<and> neural_overview_cache s p = Some (m, v) \<longrightarrow>
      cached d ld dflt s p = ((v, Some m), s)) \<and>
   (\<forall>m. getmtime d p = Some m \<and> (\<forall>v. neural_overview_cache s p \<noteq> Some (m, v)) \<longrightarrow>
      cached d ld dflt s p =
        ((ld p, Some m),
         s\<lparr>neural_overview_cache := (neural_overview_cache s)(p \<mapsto> (m, ld p)),
           loaded := loaded s @ [p]\<rparr>)) \<and>
   (\<forall>m r1 s1. getmtime d p = Some m \<and> getmtime d' p = Some m \<and>
      cached d ld dflt s p = (r1, s1) \<longrightarrow>
      cached d' ld' dflt s1 p = (r1, s1) \<and> length (loaded s1) \<le> Suc (length (loaded s))) \<and>
   (path_exists e q \<and> getmtime e q = None \<longrightarrow>
      trainer_status_read e dj t c q = (Some dj, t)) \<and>
   (\<forall>m st. path_exists e q \<and> getmtime e q = Some m \<and> trainer_status_cache t c = Some (m, st) \<longrightarrow>
      trainer_status_read e dj t c q = (Some st, t)) \<and>
   (\<forall>m st. path_exists e q \<and> getmtime e q = Some m \<and>
      (\<forall>st0. trainer_status_cache t c \<noteq> Some (m, st0)) \<and> json_in e q = Some st \<longrightarrow>
      trainer_status_read e dj t c q =
        (Some st,
         t\<lparr>trainer_status_cache := (trainer_status_cache t)(c \<mapsto> (m, st)),
           decoded := decoded t @ [q]\<rparr>))"
  using cached_stat_fails[of d p ld dflt s] cached_hit[of d p _ s _ ld dflt]
    cached_miss[of d p _ s ld dflt] cached_twice[of d p _ d' ld dflt s _ _ ld' dflt]
    cached_after[of d p _ ld dflt s]
    status_read_stat_fails[of e q dj t c] status_read_hit[of e q _ t c _ dj]
    status_read_miss[of e q _ t c _ dj]
  by (intro conjI allI impI; blast)

theorem cached_read_contract_witness:
  "cached (sample_disk None None (None :: int option)) (\<lambda>_. 7 :: int) 0 empty_overview ''f''
     = ((0, None), empty_overview) \<and>
   cached (sample_disk (Some 1) None (None :: int option)) (\<lambda>_. 7 :: int) 0
       (empty_overview\<lparr>neural_overview_cache := [''f'' \<mapsto> (1, 5)]\<rparr>) ''f''
     = ((5, Some 1), empty_overview\<lparr>neural_overview_cache := [''f'' \<mapsto> (1, 5)]\<rparr>) \<and>
   cached (sample_disk (Some 2) None (None :: int option)) (\<lambda>_. 7 :: int) 0
       (empty_overview\<lparr>neural_overview_cache := [''f'' \<mapsto> (1, 5)]\<rparr>) ''f''
     = ((7, Some 2), \<lparr>neural_overview_cache = [''f'' \<mapsto> (2, 7)], loaded = [''f'']\<rparr>) \<and>
   cached (sample_disk (Some 2) None (None :: int option)) (\<lambda>_. 9 :: int) 0
       \<lparr>neural_overview_cache = [''f'' \<mapsto> (2, 7)], loaded = [''f'']\<rparr> ''f''
     = ((7, Some 2), \<lparr>neural_overview_cache = [''f'' \<mapsto> (2, 7)], loaded = [''f'']\<rparr>) \<and>
   trainer_status_read (sample_disk None None None) (0 :: int) empty_status_cache ''BTC'' ''f''
     = (Some 0, empty_status_cache) \<and>
   trainer_status_read (sample_disk (Some 1) None None) (0 :: int)
       (empty_status_cache\<lparr>trainer_status_cache := [''BTC'' \<mapsto> (1, 5)]\<rparr>) ''BTC'' ''f''
     = (Some 5, empty_status_cache\<lparr>trainer_status_cache := [''BTC'' \<mapsto> (1, 5)]\<rparr>) \<and>
   trainer_status_read (sample_disk (Some 2) None (Some 7)) (0 :: int)
       (empty_status_cache\<lparr>trainer_status_cache := [''BTC'' \<mapsto> (1, 5)]\<rparr>) ''BTC'' ''f''
     = (Some 7, \<lparr>trainer_status_cache = [''BTC'' \<mapsto> (2, 7)], decoded = [''f'']\<rparr>)"
  using
    cached_read_contract[of "sample_disk None None (None :: int option)" "''f''" "\<lambda>_. 7 :: int" 0
      empty_overview "sample_disk None None (None :: int option)" "\<lambda>_. 7"
      "sample_disk None None None" "''f''" "0 :: int" empty_status_cache "''BTC''"]
    cached_read_contract[of "sample_disk (Some 1) None (None :: int option)" "''f''" "\<lambda>_. 7 :: int" 0
      "empty_overview\<lparr>neural_overview_cache := [''f'' \<mapsto> (1, 5)]\<rparr>"
      "sample_disk (Some 1) None (None :: int option)" "\<lambda>_. 7"
      "sample_disk (Some 1) None None" "''f''" "0 :: int"
      "empty_status_cache\<lparr>trainer_status_cache := [''BTC'' \<mapsto> (1, 5)]\<rparr>" "''BTC''"]
    cached_read_contract[of "sample_disk (Some 2) None (None :: int option)" "''f''" "\<lambda>_. 7 :: int" 0
      "empty_overview\<lparr>neural_overview_cache := [''f'' \<mapsto> (1, 5)]\<rparr>"
      "sample_disk (Some 2) None (None :: int option)" "\<lambda>_. 9"
      "sample_disk (Some 2) None (Some 7)" "''f''" "0 :: int"
      "empty_status_cache\<lparr>trainer_status_cache := [''BTC'' \<mapsto> (1, 5)]\<rparr>" "''BTC''"]
  by (simp add: sample_disk_def empty_overview_def empty_status_cache_def)

text \<open>
  C5, as stated, fails on \<open>_cached\<close>: \<open>read_int_from_file\<close> swallows the decode
  failure and returns 0, and \<open>_cached\<close> stores that 0 under the observed mtime; a later
  call at the same mtime returns the stored 0 without running the loader, although the
  file would now decode to 7.
\<close>

theorem cached_stores_failed_decode:
  "number_in (sample_disk (Some 1) None (None :: int option)) ''f'' = None \<and>
   cached (sample_disk (Some 1) None (None :: int option))
       (read_int_from_file (sample_disk (Some 1) None (None :: int option))) 0 empty_overview ''f''
     = ((0, Some 1), \<lparr>neural_overview_cache = [''f'' \<mapsto> (1, 0)], loaded = [''f'']\<rparr>) \<and>
   read_int_from_file (sample_disk (Some 1) (Some 7) (None :: int option)) ''f'' = 7 \<and>
   cached (sample_disk (Some 1) (Some 7) (None :: int option))
       (read_int_from_file (sample_disk (Some 1) (Some 7) (None :: int option))) 0
       \<lparr>neural_overview_cache = [''f'' \<mapsto> (1, 0)], loaded = [''f'']\<rparr> ''f''
     = ((0, Some 1), \<lparr>neural_overview_cache = [''f'' \<mapsto> (1, 0)], loaded = [''f'']\<rparr>)"
  by (simp add: cached_def sample_disk_def empty_overview_def read_int_from_file_def)

text \<open>
  C5, amended. In the cached read of \<open>trainer_status.json\<close> in \<open>_tick\<close> a decode
  failure yields the default \<open>{}\<close> and stores nothing, so the next call at the same
  mtime attempts the decode again, and stores and returns the value once the decode
  succeeds. In \<open>_cached\<close> a loader whose decode fails returns its fallback 0, which is
  stored under the observed mtime.
\<close>

theorem decode_failure_retried_in_tick:
  "(\<forall>m. path_exists e q \<and> getmtime e q = Some m \<and>
      (\<forall>st0. trainer_status_cache t c \<noteq> Some (m, st0)) \<and> json_in e q = None \<longrightarrow>
      trainer_status_read e dj t c q = (Some dj, t\<lparr>decoded := decoded t @ [q]\<rparr>) \<and>
      (path_exists e1 q \<and> getmtime e1 q = Some m \<and> json_in e1 q = None \<longrightarrow>
         trainer_status_read e1 dj (snd (trainer_status_read e dj t c q)) c q
           = (Some dj, t\<lparr>decoded := decoded t @ [q, q]\<rparr>)) \<and>
      (\<forall>st. path_exists e2 q \<and> getmtime e2 q = Some m \<and> json_in e2 q = Some st \<longrightarrow>
         trainer_status_read e2 dj (snd (trainer_status_read e dj t c q)) c q
           = (Some st,
              t\<lparr>trainer_status_cache := (trainer_status_cache t)(c \<mapsto> (m, st)),
                decoded := decoded t @ [q, q]\<rparr>))) \<and>
   (\<forall>m. getmtime d p = Some m \<and> (\<forall>v. neural_overview_cache s p \<noteq> Some (m, v)) \<and>
      number_in d p = None \<longrightarrow>
      cached d (read_int_from_file d) 0 s p =
        ((0, Some m),
         s\<lparr>neural_overview_cache := (neural_overview_cache s)(p \<mapsto> (m, 0)),
           loaded := loaded s @ [p]\<rparr>))"
proof (intro conjI allI impI)
  fix m
  assume h: "path_exists e q \<and> getmtime e q = Some m \<and>
      (\<forall>st0. trainer_status_cache t c \<noteq> Some (m, st0)) \<and> json_in e q = None"
  then show first: "trainer_status_read e dj t c q = (Some dj, t\<lparr>decoded := decoded t @ [q]\<rparr>)"
    using status_read_decode_fails[of e q m t c dj] by blast
  have keep: "\<forall>st0. trainer_status_cache (t\<lparr>decoded := decoded t @ [q]\<rparr>) c \<noteq> Some (m, st0)"
    using h by simp
  {
    assume h': "path_exists e1 q \<and> getmtime e1 q = Some m \<and> json_in e1 q = None"
    show "trainer_status_read e1 dj (snd (trainer_status_read e dj t c q)) c q
           = (Some dj, t\<lparr>decoded := decoded t @ [q, q]\<rparr>)"
      using status_read_decode_fails[of e1 q m "t\<lparr>decoded := decoded t @ [q]\<rparr>" c dj] h' keep first
      by simp
  }
  {
    fix st
    assume h': "path_exists e2 q \<and> getmtime e2 q = Some m \<and> json_in e2 q = Some st"
    show "trainer_status_read e2 dj (snd (trainer_status_read e dj t c q)) c q
           = (Some st,
              t\<lparr>trainer_status_cache := (trainer_status_cache t)(c \<mapsto> (m, st)),
                decoded := decoded t @ [q, q]\<rparr>)"
      using status_read_miss[of e2 q m "t\<lparr>decoded := decoded t @ [q]\<rparr>" c st dj] h' keep first
      by simp
  }
next
  fix m
  assume "getmtime d p = Some m \<and> (\<forall>v. neural_overview_cache s p \<noteq> Some (m, v)) \<and>
      number_in d p = None"
  then show "cached d (read_int_from_file d) 0 s p =
        ((0, Some m),
         s\<lparr>neural_overview_cache := (neural_overview_cache s)(p \<mapsto> (m, 0)),
           loaded := loaded s @ [p]\<rparr>)"
    using cached_miss[of d p m s "read_int_from_file d" 0] by (simp add: read_int_from_file_def)
qed

theorem decode_failure_retried_in_tick_witness:
  "trainer_status_read (sample_disk (Some 1) None None) (0 :: int) empty_status_cache ''BTC'' ''f''
     = (Some 0, \<lparr>trainer_status_cache = Map.empty, decoded = [''f'']\<rparr>) \<and>
   trainer_status_read (sample_disk (Some 1) None None) (0 :: int)
       (snd (trainer_status_read (sample_disk (Some 1) None None) (0 :: int) empty_status_cache ''BTC'' ''f''))
       ''BTC'' ''f''
     = (Some 0, \<lparr>trainer_status_cache = Map.empty, decoded = [''f'', ''f'']\<rparr>) \<and>
   trainer_status_read (sample_disk (Some 1) None (Some 7)) (0 :: int)
       (snd (trainer_status_read (sample_disk (Some 1) None None) (0 :: int) empty_status_cache ''BTC'' ''f''))
       ''BTC'' ''f''
     = (Some 7, \<lparr>trainer_status_cache = [''BTC'' \<mapsto> (1, 7)], decoded = [''f'', ''f'']\<rparr>) \<and>
   cached (sample_disk (Some 1) None (None :: int option))
       (read_int_from_file (sample_disk (Some 1) None (None :: int option))) 0 empty_overview ''f''
     = ((0, Some 1), \<lparr>neural_overview_cache = [''f'' \<mapsto> (1, 0)], loaded = [''f'']\<rparr>)"
  using decode_failure_retried_in_tick[of "sample_disk (Some 1) None None" "''f''" empty_status_cache
      "''BTC''" "0 :: int" "sample_disk (Some 1) None None" "sample_disk (Some 1) None (Some 7)"
      "sample_disk (Some 1) None (None :: int option)" "''f''" empty_overview]
  by (simp add: sample_disk_def empty_overview_def empty_status_cache_def
      trainer_status_read_def cached_def read_int_from_file_def)

subsection \<open>Spawn failure\<close>

lemma start_process_popen_raises:
  "\<not> proc_running w p \<Longrightarrow> isfile w (path p) \<Longrightarrow> popen_raises w [sys_executable, ''-u'', path p] \<Longrightarrow>
   start_process h w p = (p, log_event (ShowError ''Failed to start'' (name p)) w)"
  by (simp add: start_process_def)

lemma start_neural_for_coin_popen_raises:
  assumes "c = upper (strip c0)" "c \<noteq> []"
    and "script_for h w c (script_neural_runner2 h) (proc_neural_path h) = Some rp"
    and "case neural_runners h of None \<Rightarrow> True | Some d \<Rightarrow> map_of d c = None"
    and "popen_raises (seeded h w c (script_neural_runner2 h))
           [python_exec h (seeded h w c (script_neural_runner2 h)), ''-u'', rp, c]"
  shows "start_neural_for_coin h w c0 =
           (None, h, log_event (ShowError ''Failed to start'' c) (seeded h w c (script_neural_runner2 h)))"
  using assms by (auto simp: start_neural_for_coin_def Let_def split: option.splits)

lemma start_single_trainer_popen_raises:
  assumes "c = upper (strip c0)" "c \<noteq> []"
    and "script_for h w c (script_neural_trainer h) (proc_trainer_path h) = Some tp"
    and "case map_of (trainers h) c of None \<Rightarrow> True
         | Some lp \<Rightarrow> \<not> proc_running (seeded h w c (script_neural_trainer h)) (info lp)"
    and "popen_raises (seeded h w c (script_neural_trainer h))
           [python_exec h (seeded h w c (script_neural_trainer h)), ''-u'', tp, c]"
  shows "start_single_trainer h w c0 =
           (h, log_event (ShowError ''Failed to start'' c) (seeded h w c (script_neural_trainer h)))"
  using assms by (auto simp: start_single_trainer_def Let_def split: option.splits)

lemma start_trader_popen_raises:
  "\<not> proc_running w (proc_trader h) \<Longrightarrow> isfile w (path (proc_trader h)) \<Longrightarrow>
   popen_raises w [sys_executable, ''-u'', path (proc_trader h)] \<Longrightarrow>
   start_trader h w = (h, log_event (ShowError ''Failed to start'' (name (proc_trader h))) w)"
  by (simp add: start_trader_def start_process_popen_raises)

lemma start_neural_popen_raises:
  "\<not> proc_running w (proc_neural h) \<Longrightarrow> isfile w (path (proc_neural h)) \<Longrightarrow>
   popen_raises w [sys_executable, ''-u'', path (proc_neural h)] \<Longrightarrow>
   fst (start_neural h w) = h"
  by (simp add: start_neural_def start_process_def write_runner_ready_def proc_running_def Let_def
      split: option.splits)


lemmas sample_defs = sample_hub_def sample_world_def

lemmas path_defs = join_def coin_cwd_def upper_def strip_def upper_char_def is_space_def
  python_exec_def sys_executable_def seeded_def script_for_def resolve_script_def seed_folder_def
  runner_ready_path_def stamp_path_def

text \<open>
  C10. A \<open>Popen\<close> that raises leaves the hub as it was: no handle, pid or start time is
  recorded, no entry is added to \<open>trainers\<close> or \<open>neural_runners\<close>, the failure is shown
  in a dialog, and the call returns normally. This holds for \<open>_start_process\<close> (and so for
  \<open>start_trader\<close> and \<open>start_neural\<close>), \<open>start_neural_for_coin\<close> and
  \<open>_start_single_trainer\<close>, whenever they reach their \<open>Popen\<close>.
\<close>

theorem spawn_failure_is_atomic:
  "(\<not> proc_running w p \<and> isfile w (path p) \<and> popen_raises w [sys_executable, ''-u'', path p] \<longrightarrow>
      start_process h w p = (p, log_event (ShowError ''Failed to start'' (name p)) w)) \<and>
   (\<not> proc_running w (proc_trader h) \<and> isfile w (path (proc_trader h)) \<and>
      popen_raises w [sys_executable, ''-u'', path (proc_trader h)] \<longrightarrow>
      start_trader h w = (h, log_event (ShowError ''Failed to start'' (name (proc_trader h))) w)) \<and>
   (\<not> proc_running w (proc_neural h) \<and> isfile w (path (proc_neural h)) \<and>
      popen_raises w [sys_executable, ''-u'', path (proc_neural h)] \<longrightarrow>
      fst (start_neural h w) = h) \<and>
   (c = upper (strip c0) \<and> c \<noteq> [] \<and>
      script_for h w c (script_neural_runner2 h) (proc_neural_path h) = Some rp \<and>
      (case neural_runners h of None \<Rightarrow> True | Some d \<Rightarrow> map_of d c = None) \<and>
      popen_raises (seeded h w c (script_neural_runner2 h))
        [python_exec h (seeded h w c (script_neural_runner2 h)), ''-u'', rp, c] \<longrightarrow>
      start_neural_for_coin h w c0 =
        (None, h, log_event (ShowError ''Failed to start'' c) (seeded h w c (script_neural_runner2 h)))) \<and>
   (c = upper (strip c0) \<and> c \<noteq> [] \<and>
      script_for h w c (script_neural_trainer h) (proc_trainer_path h) = Some tp \<and>
      (case map_of (trainers h) c of None \<Rightarrow> True
       | Some lp \<Rightarrow> \<not> proc_running (seeded h w c (script_neural_trainer h)) (info lp)) \<and>
      popen_raises (seeded h w c (script_neural_trainer h))
        [python_exec h (seeded h w c (script_neural_trainer h)), ''-u'', tp, c] \<longrightarrow>
      start_single_trainer h w c0 =
        (h, log_event (ShowError ''Failed to start'' c) (seeded h w c (script_neural_trainer h))))"
  using start_process_popen_raises[of w p h] start_trader_popen_raises[of w h]
    start_neural_popen_raises[of w h] start_neural_for_coin_popen_raises[of c c0 h w rp]
    start_single_trainer_popen_raises[of c c0 h w tp]
  by blast

theorem spawn_failure_is_atomic_witness:
  "start_process sample_hub (sample_world\<lparr>popen_raises := \<lambda>_. True\<rparr>) (proc_trader sample_hub)
     = (proc_trader sample_hub,
        log_event (ShowError ''Failed to start'' ''Trader'') (sample_world\<lparr>popen_raises := \<lambda>_. True\<rparr>)) \<and>
   start_trader sample_hub (sample_world\<lparr>popen_raises := \<lambda>_. True\<rparr>)
     = (sample_hub,
        log_event (ShowError ''Failed to start'' ''Trader'') (sample_world\<lparr>popen_raises := \<lambda>_. True\<rparr>)) \<and>
   fst (start_neural sample_hub (sample_world\<lparr>popen_raises := \<lambda>_. True\<rparr>)) = sample_hub \<and>
   start_neural_for_coin sample_hub (sample_world\<lparr>popen_raises := \<lambda>_. True\<rparr>) ''btc''
     = (None, sample_hub,
        log_event (ShowError ''Failed to start'' ''BTC'') (sample_world\<lparr>popen_raises := \<lambda>_. True\<rparr>)) \<and>
   start_single_trainer sample_hub (sample_world\<lparr>popen_raises := \<lambda>_. True\<rparr>) ''btc''
     = (sample_hub,
        log_event (ShowError ''Failed to start'' ''BTC'') (sample_world\<lparr>popen_raises := \<lambda>_. True\<rparr>))"
  using spawn_failure_is_atomic[of "sample_world\<lparr>popen_raises := \<lambda>_. True\<rparr>" "proc_trader sample_hub"
      sample_hub "''BTC''" "''btc''" "''/pt/pt_thinker.py''" "''/pt/pt_trainer.py''"]
  by (simp add: sample_defs path_defs proc_running_def)

subsection \<open>Starting twice\<close>

lemmas op_defs = start_process_def stop_process_def start_neural_def start_trader_def stop_neural_def
  stop_trader_def start_trader_for_coin_def start_neural_for_coin_def start_single_trainer_def
  write_runner_ready_def write_status_def runner_is_ready_def proc_running_def spawn_def log_event_def
  fired_def

lemmas seq_defs = start_neural_then_trader_def poll_runner_ready_then_start_trader_for_coins_def
  poll_runner_ready_then_start_trader_def poll_step_def count_of_def coin_is_trained_def
  training_stamp_ok_def fallback_stamp_ok_def tick_def all_trained_def training_status_map_def
  stop_all_scripts_def poll_timer_def

lemma start_process_idempotent:
  "proc_running w p \<Longrightarrow> start_process h w p = (p, w)"
  by (simp add: start_process_def)

lemma start_single_trainer_idempotent:
  assumes "c = upper (strip c0)" "c \<noteq> []"
    and "script_for h w c (script_neural_trainer h) (proc_trainer_path h) = Some tp"
    and "map_of (trainers h) c = Some lp"
    and "proc_running (seeded h w c (script_neural_trainer h)) (info lp)"
  shows "start_single_trainer h w c0 = (h, seeded h w c (script_neural_trainer h))"
  using assms by (simp add: start_single_trainer_def Let_def)

lemma seeded_keeps:
  "alive (seeded h w c s) = alive w" "events (seeded h w c s) = events w"
  "runner_ready_json (seeded h w c s) = runner_ready_json w"
  "next_pid (seeded h w c s) = next_pid w" "popen_raises (seeded h w c s) = popen_raises w"
  by (simp_all add: seeded_def seed_folder_def Let_def)

lemma start_neural_for_coin_registered_raises:
  assumes "c = upper (strip c0)" "c \<noteq> []"
    and "script_for h w c (script_neural_runner2 h) (proc_neural_path h) = Some rp"
    and "neural_runners h = Some d" "map_of d c = Some lp"
  shows "start_neural_for_coin h w c0 = (Some AttributeError, h, seeded h w c (script_neural_runner2 h))"
  using assms by (simp add: start_neural_for_coin_def Let_def)

text \<open>
  C6. \<open>_start_process\<close> and \<open>_start_single_trainer\<close> return without a spawn and without
  a dialog when the process is alive (the two lemmas above). \<open>start_neural_for_coin\<close>
  does not: its duplicate check reads \<open>.proc\<close> of a \<open>LogProc\<close>, so the second start of a
  coin's runner, with the first one alive, leaves the function with \<open>AttributeError\<close>.
  The run below starts BTC's runner twice in the sample installation.
\<close>

theorem second_start_of_runner_raises:
  "start_neural_for_coin sample_hub sample_world ''BTC'' =
     (None,
      sample_hub\<lparr>neural_runners :=
        Some [(''BTC'', \<lparr>info = \<lparr>name = ''NeuralRunner-BTC'', path = ''/pt/pt_thinker.py'',
                                  proc = Some 1, start_time = None\<rparr>,
                         is_trainer = False, coin = Some ''BTC''\<rparr>)]\<rparr>,
      sample_world\<lparr>alive := {1}, next_pid := 2,
        events := [Spawned 1 [''python'', ''-u'', ''/pt/pt_thinker.py'', ''BTC''] ''/pt'']\<rparr>) \<and>
   start_neural_for_coin
     (sample_hub\<lparr>neural_runners :=
        Some [(''BTC'', \<lparr>info = \<lparr>name = ''NeuralRunner-BTC'', path = ''/pt/pt_thinker.py'',
                                  proc = Some 1, start_time = None\<rparr>,
                         is_trainer = False, coin = Some ''BTC''\<rparr>)]\<rparr>)
     (sample_world\<lparr>alive := {1}, next_pid := 2,
        events := [Spawned 1 [''python'', ''-u'', ''/pt/pt_thinker.py'', ''BTC''] ''/pt'']\<rparr>) ''BTC'' =
     (Some AttributeError,
      sample_hub\<lparr>neural_runners :=
        Some [(''BTC'', \<lparr>info = \<lparr>name = ''NeuralRunner-BTC'', path = ''/pt/pt_thinker.py'',
                                  proc = Some 1, start_time = None\<rparr>,
                         is_trainer = False, coin = Some ''BTC''\<rparr>)]\<rparr>,
      sample_world\<lparr>alive := {1}, next_pid := 2,
        events := [Spawned 1 [''python'', ''-u'', ''/pt/pt_thinker.py'', ''BTC''] ''/pt'']\<rparr>)"
  by (simp add: sample_defs op_defs path_defs Let_def)

subsection \<open>The readiness file at spawn time\<close>

lemma start_neural_for_coin_keeps_ready_file:
  "runner_ready_json (snd (snd (start_neural_for_coin h w c0))) = runner_ready_json w"
  by (simp add: start_neural_for_coin_def Let_def spawn_def log_event_def seeded_keeps
      split: option.splits)

lemma start_neural_resets_ready_file:
  "writable w (runner_ready_path h) \<Longrightarrow>
   runner_ready_json (snd (start_neural h w)) = ReadyDict False ''starting''"
  by (simp add: start_neural_def start_process_def write_runner_ready_def spawn_def log_event_def
      Let_def split: prod.splits)

text \<open>
  C1. \<open>start_neural\<close> writes \<open>ready = false\<close> before it spawns the runner;
  \<open>start_neural_for_coin\<close>, the spawn of the start-all sequence, never writes the file.
  The run below starts from a readiness file that still says \<open>ready = true\<close>: after
  \<open>start_neural_for_coin\<close> has spawned BTC's runner the file is unchanged and reads as
  ready, while \<open>start_neural\<close> in the same world resets it before the spawn.
\<close>

theorem fleet_runner_start_keeps_stale_ready:
  "runner_is_ready (sample_world\<lparr>runner_ready_json := ReadyDict True ''ready''\<rparr>) \<and>
   start_neural_for_coin sample_hub (sample_world\<lparr>runner_ready_json := ReadyDict True ''ready''\<rparr>) ''BTC'' =
     (None,
      sample_hub\<lparr>neural_runners :=
        Some [(''BTC'', \<lparr>info = \<lparr>name = ''NeuralRunner-BTC'', path = ''/pt/pt_thinker.py'',
                                  proc = Some 1, start_time = None\<rparr>,
                         is_trainer = False, coin = Some ''BTC''\<rparr>)]\<rparr>,
      sample_world\<lparr>alive := {1}, next_pid := 2, runner_ready_json := ReadyDict True ''ready'',
        events := [Spawned 1 [''python'', ''-u'', ''/pt/pt_thinker.py'', ''BTC''] ''/pt'']\<rparr>) \<and>
   runner_is_ready
     (snd (snd (start_neural_for_coin sample_hub
                  (sample_world\<lparr>runner_ready_json := ReadyDict True ''ready''\<rparr>) ''BTC''))) \<and>
   start_neural sample_hub (sample_world\<lparr>runner_ready_json := ReadyDict True ''ready''\<rparr>) =
     (sample_hub\<lparr>proc_neural := (proc_neural sample_hub)\<lparr>proc := Some 1, start_time := Some 1000\<rparr>\<rparr>,
      sample_world\<lparr>alive := {1}, next_pid := 2, runner_ready_json := ReadyDict False ''starting'',
        events := [WriteReady False ''starting'', Spawned 1 [''python'', ''-u'', ''/pt/pt_thinker.py''] ''/pt'']\<rparr>)"
  by (simp add: sample_defs op_defs path_defs Let_def)

subsection \<open>Which process the poll watches\<close>

lemma poll_ignores_registry:
  "fst (poll_runner_ready_then_start_trader_for_coins (h\<lparr>neural_runners := r\<rparr>) w cs) =
   fst (poll_runner_ready_then_start_trader_for_coins h w cs)"
  by (simp add: poll_runner_ready_then_start_trader_for_coins_def count_of_def Let_def
      split: prod.splits)

lemma poll_cancels_without_proc_neural:
  "auto_start_trader_pending h \<Longrightarrow> \<not> proc_running w (proc_neural h) \<Longrightarrow>
   poll_runner_ready_then_start_trader_for_coins h w cs =
     (Cancelled, h\<lparr>auto_start_trader_pending := False\<rparr>,
      log_event (SetPending False)
        (log_event (Print ''[Hub] Neural runner is not running. Cancelling trader auto-start.'') w))"
  by (simp add: poll_runner_ready_then_start_trader_for_coins_def)

text \<open>
  C2. The per-coin poll checks \<open>self.proc_neural\<close>, the single runner of the menu, and
  not the runners in \<open>neural_runners\<close> that \<open>_start_neural_then_trader\<close> spawned. First
  run: the sequence spawns BTC's runner (pid 1), which is alive and has reported ready, and
  the poll cancels because \<open>proc_neural\<close> was never started. Second run: \<open>proc_neural\<close>
  (pid 1) was started from the menu, the sequence's own runner (pid 2) has exited, and the
  poll goes on to \<open>Ready\<close> and spawns the trader (pid 3).
\<close>

theorem poll_watches_other_process:
  "start_neural_then_trader sample_hub sample_world =
     (None,
      sample_hub\<lparr>neural_runners :=
          Some [(''BTC'', \<lparr>info = \<lparr>name = ''NeuralRunner-BTC'', path = ''/pt/pt_thinker.py'',
                                    proc = Some 1, start_time = None\<rparr>,
                           is_trainer = False, coin = Some ''BTC''\<rparr>)],
        auto_start_trader_pending := True, trader_poll_count := Some 0\<rparr>,
      sample_world\<lparr>alive := {1}, next_pid := 2,
        events := [SetPending True, Spawned 1 [''python'', ''-u'', ''/pt/pt_thinker.py'', ''BTC''] ''/pt''],
        timers := [(500, PollForCoins [''BTC''])]\<rparr>) \<and>
   (case start_neural_then_trader sample_hub sample_world of
      (e, h1, w1) \<Rightarrow>
        1 \<in> alive w1 \<and>
        poll_runner_ready_then_start_trader_for_coins h1
            (fired (500, PollForCoins [''BTC'']) (w1\<lparr>runner_ready_json := ReadyDict True ''ready''\<rparr>))
            [''BTC''] =
          (Cancelled, h1\<lparr>auto_start_trader_pending := False\<rparr>,
           w1\<lparr>runner_ready_json := ReadyDict True ''ready'', timers := [],
             events := events w1 @
               [Print ''[Hub] Neural runner is not running. Cancelling trader auto-start.'',
                SetPending False]\<rparr>)) \<and>
   (case start_neural sample_hub sample_world of
      (h0, w0) \<Rightarrow>
        proc (proc_neural h0) = Some 1 \<and>
        (case start_neural_then_trader h0 w0 of
           (e, h1, w1) \<Rightarrow>
             e = None \<and>
             map_option (\<lambda>d. map (\<lambda>(c, lp). (c, proc (info lp))) d) (neural_runners h1)
               = Some [(''BTC'', Some 2)] \<and>
             (case poll_runner_ready_then_start_trader_for_coins h1
                     (fired (500, PollForCoins [''BTC''])
                        (w1\<lparr>alive := {1}, runner_ready_json := ReadyDict True ''ready''\<rparr>))
                     [''BTC''] of
                (out, h2, w2) \<Rightarrow>
                  out = Ready \<and> proc (proc_trader h2) = Some 3 \<and> 3 \<in> alive w2 \<and> 2 \<notin> alive w2)))"
  by (simp add: sample_defs op_defs path_defs seq_defs Let_def)

subsection \<open>The order of stop-all\<close>

lemma stop_trainers_alive: "alive (stop_trainers h ts w) = alive w"
  by (induction h ts w rule: stop_trainers.induct) (simp_all add: write_status_def log_event_def split: option.splits)

lemma stop_trainers_writable: "writable (stop_trainers h ts w) = writable w"
  by (induction h ts w rule: stop_trainers.induct) (simp_all add: write_status_def log_event_def split: option.splits)

lemma stop_trainers_ready_json: "runner_ready_json (stop_trainers h ts w) = runner_ready_json w"
  by (induction h ts w rule: stop_trainers.induct) (simp_all add: write_status_def log_event_def split: option.splits)

lemma stop_trainers_events:
  "\<exists>R. events (stop_trainers h ts w) = events w @ R \<and>
     (\<forall>e \<in> set R. \<exists>c lp k. (c, lp) \<in> set ts \<and> proc (info lp) = Some k \<and> k \<in> alive w \<and>
        (e = Terminate k \<or> e = WriteStatus (join (coin_cwd h c) ''trainer_status.json'') ''STOPPED'')) \<and>
     (\<forall>(c, lp) \<in> set ts. \<forall>k. proc (info lp) = Some k \<and> k \<in> alive w \<longrightarrow> Terminate k \<in> set R)"
proof (induction ts arbitrary: w)
  case Nil
  then show ?case by simp
next
  case (Cons a ts)
  obtain c lp where a: "a = (c, lp)" by (cases a)
  let ?w1 = "case proc (info lp) of None \<Rightarrow> w
             | Some k \<Rightarrow> if k \<in> alive w
                 then write_status (log_event (Terminate k) w)
                        (join (coin_cwd h c) ''trainer_status.json'') ''STOPPED''
                 else w"
  have al: "alive ?w1 = alive w"
    by (auto simp: write_status_def log_event_def split: option.splits)
  define R0 where "R0 =
     (case proc (info lp) of
        None \<Rightarrow> []
      | Some k \<Rightarrow>
          if k \<in> alive w
          then Terminate k #
                 (if writable w (join (coin_cwd h c) ''trainer_status.json'')
                  then [WriteStatus (join (coin_cwd h c) ''trainer_status.json'') ''STOPPED''] else [])
          else [])"
  have R0: "events ?w1 = events w @ R0"
    unfolding R0_def by (auto simp: write_status_def log_event_def split: option.splits)
  have R0a: "\<forall>e \<in> set R0. \<exists>k. proc (info lp) = Some k \<and> k \<in> alive w \<and>
        (e = Terminate k \<or> e = WriteStatus (join (coin_cwd h c) ''trainer_status.json'') ''STOPPED'')"
    unfolding R0_def by (cases "proc (info lp)") (auto split: if_splits)
  have R0b: "\<forall>k. proc (info lp) = Some k \<and> k \<in> alive w \<longrightarrow> Terminate k \<in> set R0"
    unfolding R0_def by (auto split: option.splits)
  from Cons.IH[of ?w1] obtain R where R: "events (stop_trainers h ts ?w1) = events ?w1 @ R"
    and Ra: "\<forall>e \<in> set R. \<exists>c lp k. (c, lp) \<in> set ts \<and> proc (info lp) = Some k \<and> k \<in> alive ?w1 \<and>
        (e = Terminate k \<or> e = WriteStatus (join (coin_cwd h c) ''trainer_status.json'') ''STOPPED'')"
    and Rb: "\<forall>(c, lp) \<in> set ts. \<forall>k. proc (info lp) = Some k \<and> k \<in> alive ?w1 \<longrightarrow> Terminate k \<in> set R"
    by blast
  have ev: "events (stop_trainers h (a # ts) w) = events w @ (R0 @ R)"
    using R R0 by (simp add: a)
  have A: "\<forall>e \<in> set (R0 @ R). \<exists>c lp k. (c, lp) \<in> set (a # ts) \<and> proc (info lp) = Some k \<and> k \<in> alive w \<and>
        (e = Terminate k \<or> e = WriteStatus (join (coin_cwd h c) ''trainer_status.json'') ''STOPPED'')"
  proof
    fix e assume "e \<in> set (R0 @ R)"
    then consider "e \<in> set R0" | "e \<in> set R" by auto
    then show "\<exists>c lp k. (c, lp) \<in> set (a # ts) \<and> proc (info lp) = Some k \<and> k \<in> alive w \<and>
        (e = Terminate k \<or> e = WriteStatus (join (coin_cwd h c) ''trainer_status.json'') ''STOPPED'')"
    proof cases
      case 1
      with R0a obtain k where "proc (info lp) = Some k" "k \<in> alive w"
        "e = Terminate k \<or> e = WriteStatus (join (coin_cwd h c) ''trainer_status.json'') ''STOPPED''"
        by blast
      then show ?thesis unfolding a by (intro exI[of _ c] exI[of _ lp] exI[of _ k]) simp
    next
      case 2
      with Ra obtain c' lp' k where "(c', lp') \<in> set ts" "proc (info lp') = Some k" "k \<in> alive ?w1"
        "e = Terminate k \<or> e = WriteStatus (join (coin_cwd h c') ''trainer_status.json'') ''STOPPED''"
        by blast
      then show ?thesis using al by (intro exI[of _ c'] exI[of _ lp'] exI[of _ k]) simp
    qed
  qed
  have B: "\<forall>(c, lp) \<in> set (a # ts). \<forall>k. proc (info lp) = Some k \<and> k \<in> alive w \<longrightarrow> Terminate k \<in> set (R0 @ R)"
  proof (intro ballI)
    fix x assume x: "x \<in> set (a # ts)"
    show "case x of (c, lp) \<Rightarrow> \<forall>k. proc (info lp) = Some k \<and> k \<in> alive w \<longrightarrow> Terminate k \<in> set (R0 @ R)"
    proof (cases "x = a")
      case True
      then show ?thesis using R0b a by simp
    next
      case False
      with x have "x \<in> set ts" by simp
      with Rb have "case x of (c, lp) \<Rightarrow> \<forall>k. proc (info lp) = Some k \<and> k \<in> alive ?w1 \<longrightarrow> Terminate k \<in> set R"
        by blast
      then show ?thesis unfolding al by (cases x) simp
    qed
  qed
  from ev A B show ?case by blast
qed



lemma stop_trader_then_neural:
  assumes "stop_trader h1 w1 = (h2, w2)" "stop_neural h2 w2 = (h3, w3)"
  shows "trainers h3 = trainers h1 \<and> coin_folders h3 = coin_folders h1 \<and>
         project_dir h3 = project_dir h1 \<and> hub_dir h3 = hub_dir h1 \<and>
         auto_start_trader_pending h3 = auto_start_trader_pending h1 \<and>
         alive w3 = alive w1 \<and> writable w3 = writable w1 \<and>
         runner_ready_json w3 = runner_ready_json w1 \<and>
         events w3 = events w1
           @ (case proc (proc_trader h1) of None \<Rightarrow> []
              | Some k \<Rightarrow> if k \<in> alive w1 then [Terminate k] else [])
           @ (case proc (proc_neural h1) of None \<Rightarrow> []
              | Some k \<Rightarrow> if k \<in> alive w1 then [Terminate k] else [])"
  using assms
  by (auto simp: stop_trader_def stop_neural_def stop_process_def log_event_def Let_def
      split: option.splits if_splits prod.splits)

text \<open>
  What \<open>stop_all_scripts\<close> does do, in order: it clears \<open>_auto_start_trader_pending\<close>,
  asks the trader to terminate, then the single runner \<open>proc_neural\<close>, then the
  trainers (each followed by its \<open>STOPPED\<close> status file), and writes \<open>ready = false\<close>
  to the readiness file last.
\<close>

lemma stop_all_event_order:
  "\<exists>R. events (snd (stop_all_scripts h w)) =
          events w @ [SetPending False]
            @ (case proc (proc_trader h) of None \<Rightarrow> []
               | Some k \<Rightarrow> if k \<in> alive w then [Terminate k] else [])
            @ (case proc (proc_neural h) of None \<Rightarrow> []
               | Some k \<Rightarrow> if k \<in> alive w then [Terminate k] else [])
            @ R
            @ (if writable w (runner_ready_path h) then [WriteReady False ''stopped''] else []) \<and>
        (\<forall>e \<in> set R. \<exists>c lp k. (c, lp) \<in> set (trainers h) \<and> proc (info lp) = Some k \<and> k \<in> alive w \<and>
           (e = Terminate k \<or> e = WriteStatus (join (coin_cwd h c) ''trainer_status.json'') ''STOPPED'')) \<and>
        (\<forall>(c, lp) \<in> set (trainers h). \<forall>k. proc (info lp) = Some k \<and> k \<in> alive w \<longrightarrow> Terminate k \<in> set R) \<and>
        \<not> auto_start_trader_pending (fst (stop_all_scripts h w)) \<and>
        (writable w (runner_ready_path h) \<longrightarrow>
           runner_ready_json (snd (stop_all_scripts h w)) = ReadyDict False ''stopped'')"
proof -
  let ?h1 = "h\<lparr>auto_start_trader_pending := False\<rparr>"
  let ?w1 = "log_event (SetPending False) w"
  obtain h2 w2 where s2: "stop_trader ?h1 ?w1 = (h2, w2)" by (cases "stop_trader ?h1 ?w1")
  obtain h3 w3 where s3: "stop_neural h2 w2 = (h3, w3)" by (cases "stop_neural h2 w2")
  note K = stop_trader_then_neural[OF s2 s3]
  have res: "stop_all_scripts h w =
               (h3, write_runner_ready h3 (stop_trainers h3 (trainers h3) w3) False ''stopped'')"
    using s2 s3 by (simp add: stop_all_scripts_def Let_def)
  have pd: "project_dir h3 = project_dir h" and cf: "coin_folders h3 = coin_folders h"
    using K by simp_all
  have cw: "coin_cwd h3 = coin_cwd h"
    by (simp add: coin_cwd_def fun_eq_iff pd cf split: option.splits)
  have rp: "runner_ready_path h3 = runner_ready_path h"
    using K by (simp add: runner_ready_path_def)
  have al: "alive w3 = alive w" and wr: "writable w3 = writable w"
    using K by (simp_all add: log_event_def)
  have e3: "events w3 = events w @ [SetPending False]
            @ (case proc (proc_trader h) of None \<Rightarrow> []
               | Some k \<Rightarrow> if k \<in> alive w then [Terminate k] else [])
            @ (case proc (proc_neural h) of None \<Rightarrow> []
               | Some k \<Rightarrow> if k \<in> alive w then [Terminate k] else [])"
    using K by (simp add: log_event_def cong: option.case_cong)
  from stop_trainers_events[of h3 "trainers h3" w3]
  obtain R where R: "events (stop_trainers h3 (trainers h3) w3) = events w3 @ R"
    and Ra: "\<forall>e \<in> set R. \<exists>c lp k. (c, lp) \<in> set (trainers h3) \<and> proc (info lp) = Some k \<and> k \<in> alive w3 \<and>
        (e = Terminate k \<or> e = WriteStatus (join (coin_cwd h3 c) ''trainer_status.json'') ''STOPPED'')"
    and Rb: "\<forall>(c, lp) \<in> set (trainers h3). \<forall>k. proc (info lp) = Some k \<and> k \<in> alive w3 \<longrightarrow> Terminate k \<in> set R"
    by blast
  have tr: "trainers h3 = trainers h" using K by simp
  have ev: "events (snd (stop_all_scripts h w)) =
          events w @ [SetPending False]
            @ (case proc (proc_trader h) of None \<Rightarrow> []
               | Some k \<Rightarrow> if k \<in> alive w then [Terminate k] else [])
            @ (case proc (proc_neural h) of None \<Rightarrow> []
               | Some k \<Rightarrow> if k \<in> alive w then [Terminate k] else [])
            @ R
            @ (if writable w (runner_ready_path h) then [WriteReady False ''stopped''] else [])"
    by (simp add: res write_runner_ready_def rp stop_trainers_writable wr R e3)
  have pend: "\<not> auto_start_trader_pending (fst (stop_all_scripts h w))"
    using K by (simp add: res)
  have fin: "writable w (runner_ready_path h) \<longrightarrow>
           runner_ready_json (snd (stop_all_scripts h w)) = ReadyDict False ''stopped''"
    by (simp add: res write_runner_ready_def rp stop_trainers_writable wr)
  from ev Ra Rb pend fin show ?thesis
    unfolding tr cw al by blast
qed


lemma stop_all_event_order_sample:
  "events (snd (stop_all_scripts running_hub running_world)) =
     [SetPending False, Terminate 1, Terminate 2, Terminate 3,
      WriteStatus ''/pt/trainer_status.json'' ''STOPPED'', WriteReady False ''stopped''] \<and>
   \<not> auto_start_trader_pending (fst (stop_all_scripts running_hub running_world)) \<and>
   runner_ready_json (snd (stop_all_scripts running_hub running_world)) = ReadyDict False ''stopped''"
  using stop_all_event_order[of running_hub running_world]
  by (simp add: running_hub_def running_world_def sample_defs path_defs op_defs seq_defs Let_def)

lemma stop_all_keeps_start_flag_and_runners:
  "auto_start_runner_after_training (fst (stop_all_scripts h w)) = auto_start_runner_after_training h"
  "neural_runners (fst (stop_all_scripts h w)) = neural_runners h"
  by (simp_all add: stop_all_scripts_def stop_trader_def stop_neural_def stop_process_def Let_def
      split: prod.splits option.splits)

text \<open>
  C7. \<open>stop_all_scripts\<close> keeps the order it has, but it does not reach every
  generating-role process and it does not clear the flag that Start All sets. First run:
  with BTC's runner (pid 1) registered in \<open>neural_runners\<close> and alive, stop-all asks the
  trader (pid 2) and the trainer (pid 3) to terminate and sends nothing to pid 1; the
  trainer is stopped while the instrument's generator keeps running. Second run: Start All
  has set \<open>_auto_start_runner_after_training\<close>; stop-all leaves it set, so the next
  tick that sees all coins trained schedules the sequence again, and the callback spawns
  BTC's runner (pid 3) after the stop.
\<close>

theorem stop_all_leaves_runners_and_start_flag:
  "(case stop_all_scripts fleet_hub fleet_world of
      (h2, w2) \<Rightarrow>
        events w2 =
          [SetPending False, Terminate 2, Terminate 3,
           WriteStatus ''/pt/trainer_status.json'' ''STOPPED'', WriteReady False ''stopped''] \<and>
        Terminate 1 \<notin> set (events w2) \<and> 1 \<in> alive fleet_world \<and>
        map_option (map (\<lambda>(c, lp). (c, proc (info lp)))) (neural_runners h2) = Some [(''BTC'', Some 1)]) \<and>
   auto_start_runner_after_training start_all_hub \<and>
   (case stop_all_scripts start_all_hub start_all_world of
      (h2, w2) \<Rightarrow>
        auto_start_runner_after_training h2 \<and> \<not> auto_start_trader_pending h2 \<and>
        Terminate 2 \<in> set (events w2) \<and>
        (case tick h2 (w2\<lparr>alive := {}\<rparr>) [] of
           (h3, w3) \<Rightarrow>
             auto_start_trader_pending h3 \<and> timers w3 = [(5, StartNeuralThenTrader)] \<and>
             (case start_neural_then_trader h3 (fired (5, StartNeuralThenTrader) w3) of
                (e, h4, w4) \<Rightarrow>
                  e = None \<and> 3 \<in> alive w4 \<and>
                  last (events w4) = Spawned 3 [''python'', ''-u'', ''/pt/pt_thinker.py'', ''BTC''] ''/pt'')))"
  by (simp add: fleet_hub_def fleet_world_def start_all_hub_def start_all_world_def
      sample_defs path_defs op_defs seq_defs Let_def)

subsection \<open>Trained coins\<close>

lemma set_update_graph:
  "\<forall>(k', v') \<in> set al. v' = g k' \<Longrightarrow> set (AList.update k (g k) al) = insert (k, g k) (set al)"
  by (induction al) auto

lemma set_fold_update_graph:
  "\<forall>(k', v') \<in> set acc. v' = g k' \<Longrightarrow>
   set (foldl (\<lambda>out c. AList.update c (g c) out) acc cs) = set acc \<union> (\<lambda>c. (c, g c)) ` set cs"
proof (induction cs arbitrary: acc)
  case Nil
  then show ?case by simp
next
  case (Cons c cs)
  have s: "set (AList.update c (g c) acc) = insert (c, g c) (set acc)"
    using Cons.prems by (rule set_update_graph)
  have inv: "\<forall>(k', v') \<in> set (AList.update c (g c) acc). v' = g k'"
    using Cons.prems unfolding s by auto
  show ?case using Cons.IH[OF inv] s by auto
qed


lemma set_training_status_map:
  "set (training_status_map h w running) =
     (\<lambda>c. (c, if coin_is_trained h w c then ''TRAINED''
               else if c \<in> set running then ''TRAINING'' else ''NOT TRAINED'')) ` set (coins h)"
  unfolding training_status_map_def
  by (subst set_fold_update_graph) simp_all

lemma status_is_trained:
  "(if t then ''TRAINED'' else if r then ''TRAINING'' else ''NOT TRAINED'') = ''TRAINED'' \<longleftrightarrow> t"
  by simp


lemma all_trained_iff:
  "all_trained h w running \<longleftrightarrow> coins h \<noteq> [] \<and> (\<forall>c \<in> set (coins h). coin_is_trained h w c)"
proof -
  let ?m = "training_status_map h w running"
  let ?g = "\<lambda>c. if coin_is_trained h w c then ''TRAINED''
               else if c \<in> set running then ''TRAINING'' else ''NOT TRAINED''"
  have sm: "set ?m = (\<lambda>c. (c, ?g c)) ` set (coins h)"
    by (rule set_training_status_map)
  have "set ?m = {} \<longleftrightarrow> set (coins h) = {}"
    unfolding sm by (rule image_is_empty)
  then have ne: "?m \<noteq> [] \<longleftrightarrow> coins h \<noteq> []"
    by (simp only: set_empty)
  have "list_all (\<lambda>v. v = ''TRAINED'') (map snd ?m) \<longleftrightarrow> (\<forall>x \<in> set ?m. snd x = ''TRAINED'')"
    by (simp only: list_all_iff set_map ball_simps)
  also have "\<dots> \<longleftrightarrow> (\<forall>c \<in> set (coins h). ?g c = ''TRAINED'')"
    unfolding sm by (simp only: ball_simps snd_conv)
  also have "\<dots> \<longleftrightarrow> (\<forall>c \<in> set (coins h). coin_is_trained h w c)"
    by (simp only: status_is_trained)
  finally have al: "list_all (\<lambda>v. v = ''TRAINED'') (map snd ?m) \<longleftrightarrow>
      (\<forall>c \<in> set (coins h). coin_is_trained h w c)" .
  show ?thesis
    unfolding all_trained_def Let_def using ne al by (simp only: if_True if_False split: if_splits) blast
qed


lemma training_stamp_ok_iff:
  "training_stamp_ok w sp \<longleftrightarrow>
     isfile w sp \<and> (\<exists>ts. stamp_of w sp = Some ts \<and> 0 < ts \<and> clock w - ts \<le> 14 * 24 * 60 * 60)"
  by (cases "stamp_of w sp") (simp_all add: training_stamp_ok_def)

lemma fallback_stamp_ok_iff:
  "fallback_stamp_ok w sp \<longleftrightarrow>
     isfile w sp \<and> (\<exists>ts. stamp_of w sp = Some ts \<and> 0 < ts \<and> clock w - ts \<le> 14 * 24 * 60 * 60)"
  by (cases "stamp_of w sp") (auto simp add: fallback_stamp_ok_def)


lemma coin_is_trained_iff:
  "coin_is_trained h w c0 \<longleftrightarrow>
     (\<exists>folder. coin_folders h (strip (upper c0)) = Some folder \<and> folder \<noteq> [] \<and> isdir w folder \<and>
        ((dry_run_mode h \<and> isfile w (join folder ''trained_model_saved.txt'')) \<or>
         (\<exists>s. status_json_of w (join folder ''trainer_status.json'') = StatusDict s \<and>
              (upper s = ''FINISHED'' \<or> upper s = ''TRAINED'')) \<or>
         (isfile w (stamp_path folder) \<and>
          (\<exists>ts. stamp_of w (stamp_path folder) = Some ts \<and> 0 < ts \<and>
                clock w - ts \<le> 14 * 24 * 60 * 60))))"
proof (cases "coin_folders h (strip (upper c0))")
  case None
  then show ?thesis by (simp add: coin_is_trained_def)
next
  case (Some folder)
  show ?thesis
  proof (cases "status_json_of w (join folder ''trainer_status.json'')")
    case NoStatus
    show ?thesis
      by (simp add: coin_is_trained_def Let_def Some NoStatus fallback_stamp_ok_iff; blast)
  next
    case (StatusDict s)
    show ?thesis
      by (simp add: coin_is_trained_def Let_def Some StatusDict fallback_stamp_ok_iff
          training_stamp_ok_iff; blast)
  qed
qed

text \<open>
  C9, as stated, fails in two ways. With no managed instrument every instrument reports
  TRAINED, yet \<open>all_trained\<close> is false. And \<open>_coin_is_trained\<close> is wider than the
  claim's "reports TRAINED": a coin whose status artifact says \<open>STOPPED\<close> is trained when
  a recent completion timestamp exists, and in dry-run mode a coin is trained when the
  saved-model marker exists.
\<close>

theorem all_trained_not_as_claimed:
  "\<not> (all_trained (sample_hub\<lparr>coins := []\<rparr>) sample_world [] \<longleftrightarrow>
        (\<forall>c \<in> set (coins (sample_hub\<lparr>coins := []\<rparr>)).
           spec_reports_trained (sample_hub\<lparr>coins := []\<rparr>) sample_world c)) \<and>
   coin_is_trained sample_hub stopped_world ''BTC'' \<and>
   \<not> spec_reports_trained sample_hub stopped_world ''BTC'' \<and>
   coin_is_trained (sample_hub\<lparr>dry_run_mode := True\<rparr>)
     (stopped_world\<lparr>isfile := (\<lambda>p. p = ''/pt/trained_model_saved.txt'')\<rparr>) ''BTC'' \<and>
   \<not> spec_reports_trained (sample_hub\<lparr>dry_run_mode := True\<rparr>)
     (stopped_world\<lparr>isfile := (\<lambda>p. p = ''/pt/trained_model_saved.txt'')\<rparr>) ''BTC''"
  by (simp add: all_trained_def training_status_map_def coin_is_trained_def spec_reports_trained_def
      fallback_stamp_ok_def training_stamp_ok_def stopped_world_def sample_defs path_defs Let_def)

text \<open>
  C9, amended. \<open>all_trained\<close> holds exactly when there is at least one managed
  instrument and \<open>_coin_is_trained\<close> holds for every one of them. \<open>_coin_is_trained\<close>
  holds exactly when the coin's folder is configured and exists and one of these holds: the
  hub is in dry-run mode and the saved-model marker exists; the status artifact states
  \<open>FINISHED\<close> or \<open>TRAINED\<close>; a completion-timestamp file exists whose timestamp is
  positive and at most 14 days old (whatever the status artifact states, and also when it
  is missing or unreadable).
\<close>

theorem all_trained_as_coded:
  "(all_trained h w running \<longleftrightarrow>
      coins h \<noteq> [] \<and> (\<forall>c \<in> set (coins h). coin_is_trained h w c)) \<and>
   (coin_is_trained h w c0 \<longleftrightarrow>
     (\<exists>folder. coin_folders h (strip (upper c0)) = Some folder \<and> folder \<noteq> [] \<and> isdir w folder \<and>
        ((dry_run_mode h \<and> isfile w (join folder ''trained_model_saved.txt'')) \<or>
         (\<exists>s. status_json_of w (join folder ''trainer_status.json'') = StatusDict s \<and>
              (upper s = ''FINISHED'' \<or> upper s = ''TRAINED'')) \<or>
         (isfile w (stamp_path folder) \<and>
          (\<exists>ts. stamp_of w (stamp_path folder) = Some ts \<and> 0 < ts \<and>
                clock w - ts \<le> 14 * 24 * 60 * 60)))))"
  by (rule conjI[OF all_trained_iff coin_is_trained_iff])

theorem all_trained_as_coded_witness:
  "all_trained sample_hub sample_world [] \<and>
   coin_is_trained sample_hub sample_world '' btc'' \<and>
   \<not> all_trained (sample_hub\<lparr>coins := []\<rparr>) sample_world [] \<and>
   coin_is_trained sample_hub stopped_world ''BTC'' \<and>
   \<not> all_trained (sample_hub\<lparr>coins := [''BTC'', ''ETH'']\<rparr>) sample_world []"
  using all_trained_as_coded[of sample_hub sample_world "[]" "'' btc''"]
    all_trained_as_coded[of "sample_hub\<lparr>coins := []\<rparr>" sample_world "[]" "''BTC''"]
    all_trained_as_coded[of sample_hub stopped_world "[]" "''BTC''"]
    all_trained_as_coded[of "sample_hub\<lparr>coins := [''BTC'', ''ETH'']\<rparr>" sample_world "[]" "''ETH''"]
  by (simp add: stopped_world_def sample_defs path_defs coin_is_trained_def all_trained_def
      training_status_map_def fallback_stamp_ok_def training_stamp_ok_def Let_def)

subsection \<open>The bounded poll\<close>

lemma start_trader_for_coins_fields:
  "auto_start_trader_pending (fst (start_trader_for_coins h w cs)) = auto_start_trader_pending h"
  "trader_poll_count (fst (start_trader_for_coins h w cs)) = trader_poll_count h"
  by (induction h w cs rule: start_trader_for_coins.induct;
      simp add: start_trader_for_coin_def start_trader_def start_process_def spawn_def Let_def
        split: prod.splits)+

lemma poll_step_reschedules:
  assumes "auto_start_trader_pending h" "proc_running w (proc_neural h)" "\<not> runner_is_ready w"
    and "count_of h < 20"
  shows "poll_step v h w =
           (Rescheduled, h\<lparr>trader_poll_count := Some (Suc (count_of h))\<rparr>,
            w\<lparr>timers := timers w @ [poll_timer v]\<rparr>)"
  using assms
  by (cases v)
     (simp_all add: poll_step_def poll_runner_ready_then_start_trader_for_coins_def
        poll_runner_ready_then_start_trader_def poll_timer_def count_of_def Let_def)

lemma poll_step_times_out:
  assumes "auto_start_trader_pending h" "proc_running w (proc_neural h)" "\<not> runner_is_ready w"
    and "20 \<le> count_of h"
  shows "fst (poll_step v h w) = TimedOut"
    and "poll_step (Some cs) h w =
           (TimedOut,
            start_trader_for_coins
              (h\<lparr>trader_poll_count := Some (Suc (count_of h)), auto_start_trader_pending := False\<rparr>)
              (log_event (SetPending False)
                (log_event (Print ''[Hub] Timed out waiting for runner ready. Starting trader anyway for all trained coins.'') w))
              cs)"
    and "poll_step None h w =
           (TimedOut,
            start_trader
              (h\<lparr>trader_poll_count := Some (Suc (count_of h)), auto_start_trader_pending := False\<rparr>)
              (log_event (SetPending False)
                (log_event (Print ''[Hub] Timed out waiting for runner ready. Starting trader anyway.'') w)))"
  using assms
  by (cases v;
      simp add: poll_step_def poll_runner_ready_then_start_trader_for_coins_def
        poll_runner_ready_then_start_trader_def count_of_def Let_def start_trader_def
        start_process_def split: prod.splits)+


lemma run_poll_counts_up:
  assumes E: "\<forall>i w'. proc_running (env i w') p \<and> \<not> runner_is_ready (env i w')"
  shows "20 - count_of h = k \<Longrightarrow> count_of h \<le> 20 \<Longrightarrow> auto_start_trader_pending h \<Longrightarrow>
         proc_neural h = p \<Longrightarrow>
         \<exists>wl. proc_running wl p \<and> \<not> runner_is_ready wl \<and>
              run_poll env v i h w =
                (i + (21 - count_of h), poll_step v (h\<lparr>trader_poll_count := Some 20\<rparr>) wl)"
proof (induction k arbitrary: h i w)
  case 0
  then have c: "count_of h = 20" by simp
  then have tc: "trader_poll_count h = Some 20"
    by (cases "trader_poll_count h") (simp_all add: count_of_def)
  have hh: "h\<lparr>trader_poll_count := Some 20\<rparr> = h" using tc by simp
  have run: "proc_running (env i w) (proc_neural h)" and nr: "\<not> runner_is_ready (env i w)"
    using E 0 by simp_all
  have "fst (poll_step v h (env i w)) = TimedOut"
    using poll_step_times_out(1)[OF "0.prems"(3) run nr] c by simp
  then have "run_poll env v i h w = (Suc i, poll_step v h (env i w))"
    by (subst run_poll.simps) (simp add: Let_def)
  then show ?case using run nr c hh "0.prems"(4) by (intro exI[of _ "env i w"]) simp
next
  case (Suc k)
  then have c: "count_of h < 20" by simp
  have run: "proc_running (env i w) (proc_neural h)" and nr: "\<not> runner_is_ready (env i w)"
    using E Suc.prems by simp_all
  let ?h1 = "h\<lparr>trader_poll_count := Some (Suc (count_of h))\<rparr>"
  let ?w1 = "(env i w)\<lparr>timers := timers (env i w) @ [poll_timer v]\<rparr>"
  have st: "poll_step v h (env i w) = (Rescheduled, ?h1, ?w1)"
    using poll_step_reschedules[OF Suc.prems(3) run nr c] .
  have unf: "run_poll env v i h w = run_poll env v (Suc i) ?h1 (fired (poll_timer v) ?w1)"
    by (subst run_poll.simps) (simp add: st Let_def)
  have c1: "count_of ?h1 = Suc (count_of h)" by (simp add: count_of_def)
  have "\<exists>wl. proc_running wl p \<and> \<not> runner_is_ready wl \<and>
          run_poll env v (Suc i) ?h1 (fired (poll_timer v) ?w1) =
            (Suc i + (21 - count_of ?h1), poll_step v (?h1\<lparr>trader_poll_count := Some 20\<rparr>) wl)"
    using Suc.prems c by (intro Suc.IH) (simp_all add: c1)
  then obtain wl where wl: "proc_running wl p" "\<not> runner_is_ready wl"
    and r: "run_poll env v (Suc i) ?h1 (fired (poll_timer v) ?w1) =
            (Suc i + (21 - count_of ?h1), poll_step v (?h1\<lparr>trader_poll_count := Some 20\<rparr>) wl)"
    by blast
  have ar: "Suc i + (21 - Suc (count_of h)) = i + (21 - count_of h)" using c by arith
  have "run_poll env v i h w = (i + (21 - count_of h), poll_step v (h\<lparr>trader_poll_count := Some 20\<rparr>) wl)"
    unfolding unf r c1 ar by simp
  with wl show ?case by blast
qed


lemma run_poll_last_step:
  assumes P: "auto_start_trader_pending h"
    and E: "\<forall>i w'. proc_running (env i w') (proc_neural h) \<and> \<not> runner_is_ready (env i w')"
  shows "\<exists>wl hl. proc_running wl (proc_neural h) \<and> \<not> runner_is_ready wl \<and>
           auto_start_trader_pending hl \<and> proc_neural hl = proc_neural h \<and>
           20 \<le> count_of hl \<and> Suc (count_of hl) = max 21 (Suc (count_of h)) \<and>
           hl\<lparr>trader_poll_count := Some (Suc (count_of hl)), auto_start_trader_pending := False\<rparr>
             = h\<lparr>trader_poll_count := Some (max 21 (Suc (count_of h))), auto_start_trader_pending := False\<rparr> \<and>
           run_poll env v 0 h w = (21 - min (count_of h) 20, poll_step v hl wl)"
proof (cases "count_of h \<le> 20")
  case True
  from run_poll_counts_up[OF E refl True P refl, of v 0 w]
  obtain wl where wl: "proc_running wl (proc_neural h)" "\<not> runner_is_ready wl"
    and r: "run_poll env v 0 h w =
              (0 + (21 - count_of h), poll_step v (h\<lparr>trader_poll_count := Some 20\<rparr>) wl)"
    by blast
  let ?hl = "h\<lparr>trader_poll_count := Some 20\<rparr>"
  have c: "count_of ?hl = 20" by (simp add: count_of_def)
  have m: "min (count_of h) 20 = count_of h" "max 21 (Suc (count_of h)) = 21" using True by simp_all
  show ?thesis
    using wl P r c m by (intro exI[of _ wl] exI[of _ ?hl]) simp
next
  case False
  then have c: "20 \<le> count_of h" by simp
  have run: "proc_running (env 0 w) (proc_neural h)" and nr: "\<not> runner_is_ready (env 0 w)"
    using E by simp_all
  have "fst (poll_step v h (env 0 w)) = TimedOut"
    using poll_step_times_out(1)[OF P run nr c] .
  then have r: "run_poll env v 0 h w = (Suc 0, poll_step v h (env 0 w))"
    by (subst run_poll.simps) (simp add: Let_def)
  have m: "min (count_of h) 20 = 20" "max 21 (Suc (count_of h)) = Suc (count_of h)" using False by simp_all
  show ?thesis
    using run nr P r c m by (intro exI[of _ "env 0 w"] exI[of _ h]) simp
qed

text \<open>
  What the poll does while the process it watches, \<open>proc_neural\<close>, stays alive and the
  readiness file never says \<open>ready = true\<close>: the chain of callbacks makes at most 21
  runs (exactly 21 from the counter 0) and its last run takes the timed-out branch, which
  clears the pending flag and calls the trader start.
\<close>

lemma poll_times_out_after_21_runs:
  "auto_start_trader_pending h \<and>
   (\<forall>i w'. proc_running (env i w') (proc_neural h) \<and> \<not> runner_is_ready (env i w')) \<longrightarrow>
   (\<exists>wl. proc_running wl (proc_neural h) \<and> \<not> runner_is_ready wl \<and>
      run_poll env (Some cs) 0 h w =
        (21 - min (count_of h) 20, TimedOut,
         start_trader_for_coins
           (h\<lparr>trader_poll_count := Some (max 21 (Suc (count_of h))), auto_start_trader_pending := False\<rparr>)
           (log_event (SetPending False)
             (log_event (Print ''[Hub] Timed out waiting for runner ready. Starting trader anyway for all trained coins.'') wl))
           cs)) \<and>
   (\<exists>wl. proc_running wl (proc_neural h) \<and> \<not> runner_is_ready wl \<and>
      run_poll env None 0 h w =
        (21 - min (count_of h) 20, TimedOut,
         start_trader
           (h\<lparr>trader_poll_count := Some (max 21 (Suc (count_of h))), auto_start_trader_pending := False\<rparr>)
           (log_event (SetPending False)
             (log_event (Print ''[Hub] Timed out waiting for runner ready. Starting trader anyway.'') wl))))"
proof (intro impI conjI)
  assume A: "auto_start_trader_pending h \<and>
   (\<forall>i w'. proc_running (env i w') (proc_neural h) \<and> \<not> runner_is_ready (env i w'))"
  then have P: "auto_start_trader_pending h"
    and E: "\<forall>i w'. proc_running (env i w') (proc_neural h) \<and> \<not> runner_is_ready (env i w')"
    by simp_all
  {
    fix v
    from run_poll_last_step[OF P E, of v w]
    have "\<exists>wl hl. proc_running wl (proc_neural hl) \<and> \<not> runner_is_ready wl \<and>
           proc_neural hl = proc_neural h \<and>
           auto_start_trader_pending hl \<and> 20 \<le> count_of hl \<and>
           hl\<lparr>trader_poll_count := Some (Suc (count_of hl)), auto_start_trader_pending := False\<rparr>
             = h\<lparr>trader_poll_count := Some (max 21 (Suc (count_of h))), auto_start_trader_pending := False\<rparr> \<and>
           run_poll env v 0 h w = (21 - min (count_of h) 20, poll_step v hl wl)"
      by metis
  } note L = this
  from L[of "Some cs"] obtain wl hl where
    a: "proc_running wl (proc_neural hl)" "\<not> runner_is_ready wl" "auto_start_trader_pending hl"
       "20 \<le> count_of hl" and pn: "proc_neural hl = proc_neural h"
    and eq: "hl\<lparr>trader_poll_count := Some (Suc (count_of hl)), auto_start_trader_pending := False\<rparr>
             = h\<lparr>trader_poll_count := Some (max 21 (Suc (count_of h))), auto_start_trader_pending := False\<rparr>"
    and r: "run_poll env (Some cs) 0 h w = (21 - min (count_of h) 20, poll_step (Some cs) hl wl)"
    by blast
  show "\<exists>wl. proc_running wl (proc_neural h) \<and> \<not> runner_is_ready wl \<and>
      run_poll env (Some cs) 0 h w =
        (21 - min (count_of h) 20, TimedOut,
         start_trader_for_coins
           (h\<lparr>trader_poll_count := Some (max 21 (Suc (count_of h))), auto_start_trader_pending := False\<rparr>)
           (log_event (SetPending False)
             (log_event (Print ''[Hub] Timed out waiting for runner ready. Starting trader anyway for all trained coins.'') wl))
           cs)"
    using a(1,2) pn r poll_step_times_out(2)[OF a(3) a(1) a(2) a(4), of cs] eq
    by (intro exI[of _ wl]) simp
  from L[of None] obtain wl hl where
    a: "proc_running wl (proc_neural hl)" "\<not> runner_is_ready wl" "auto_start_trader_pending hl"
       "20 \<le> count_of hl" and pn: "proc_neural hl = proc_neural h"
    and eq: "hl\<lparr>trader_poll_count := Some (Suc (count_of hl)), auto_start_trader_pending := False\<rparr>
             = h\<lparr>trader_poll_count := Some (max 21 (Suc (count_of h))), auto_start_trader_pending := False\<rparr>"
    and r: "run_poll env None 0 h w = (21 - min (count_of h) 20, poll_step None hl wl)"
    by blast
  show "\<exists>wl. proc_running wl (proc_neural h) \<and> \<not> runner_is_ready wl \<and>
      run_poll env None 0 h w =
        (21 - min (count_of h) 20, TimedOut,
         start_trader
           (h\<lparr>trader_poll_count := Some (max 21 (Suc (count_of h))), auto_start_trader_pending := False\<rparr>)
           (log_event (SetPending False)
             (log_event (Print ''[Hub] Timed out waiting for runner ready. Starting trader anyway.'') wl)))"
    using a(1,2) pn r poll_step_times_out(3)[OF a(3) a(1) a(2) a(4)] eq
    by (intro exI[of _ wl]) simp
qed

lemma poll_times_out_after_21_runs_sample:
  "auto_start_trader_pending running_hub \<and>
   fst (run_poll never_ready (Some [''BTC'']) 0 running_hub running_world) = 21 \<and>
   fst (snd (run_poll never_ready (Some [''BTC'']) 0 running_hub running_world)) = TimedOut \<and>
   fst (run_poll never_ready None 0 running_hub running_world) = 21 \<and>
   fst (snd (run_poll never_ready None 0 running_hub running_world)) = TimedOut"
  using poll_times_out_after_21_runs[of running_hub never_ready "[''BTC'']" running_world]
  by (auto simp: running_hub_def running_world_def never_ready_def sample_defs proc_running_def
      runner_is_ready_def count_of_def)

text \<open>
  C3. In the start-all sequence the poll does not run its bounded wait. The sequence
  spawns BTC's own runner (pid 1) and never starts \<open>proc_neural\<close>; with that runner
  alive and the readiness file never ready, the chain of poll callbacks ends after one run
  in the cancelled branch: no timeout, and the trader is not started. For comparison, the
  second run keeps \<open>proc_neural\<close> (pid 2) alive instead: the chain then makes 21 runs,
  ends in the timed-out branch and spawns the trader (pid 4).
\<close>

theorem fleet_poll_cancels_instead_of_timing_out:
  "(case start_neural_then_trader sample_hub sample_world of
      (e, h1, w1) \<Rightarrow>
        e = None \<and> proc (proc_neural h1) = None \<and>
        map_option (map (\<lambda>(c, lp). (c, proc (info lp)))) (neural_runners h1) = Some [(''BTC'', Some 1)] \<and>
        timers w1 = [(500, PollForCoins [''BTC''])] \<and>
        (case run_poll own_runner_never_ready (Some [''BTC'']) 0 h1
                (fired (500, PollForCoins [''BTC'']) w1) of
           (n, out, h2, w2) \<Rightarrow>
             n = 1 \<and> out = Cancelled \<and> 1 \<in> alive w2 \<and> \<not> runner_is_ready w2 \<and>
             \<not> auto_start_trader_pending h2 \<and> proc (proc_trader h2) = None \<and> timers w2 = [] \<and>
             events w2 =
               [SetPending True, Spawned 1 [''python'', ''-u'', ''/pt/pt_thinker.py'', ''BTC''] ''/pt'',
                Print ''[Hub] Neural runner is not running. Cancelling trader auto-start.'',
                SetPending False])) \<and>
   (case run_poll never_ready (Some [''BTC'']) 0 running_hub running_world of
      (n, out, h2, w2) \<Rightarrow>
        n = 21 \<and> out = TimedOut \<and> \<not> auto_start_trader_pending h2 \<and>
        trader_poll_count h2 = Some 21 \<and> proc (proc_trader h2) = Some 4 \<and> 4 \<in> alive w2 \<and>
        events w2 =
          [Print ''[Hub] Timed out waiting for runner ready. Starting trader anyway for all trained coins.'',
           SetPending False, Spawned 4 [''python'', ''-u'', ''/pt/pt_trader.py''] ''/pt''])"
  by (simp add: running_hub_def running_world_def never_ready_def own_runner_never_ready_def
      sample_defs path_defs op_defs seq_defs run_poll.simps Let_def)

subsection \<open>Stop-all during a start-all sequence\<close>

lemma poll_honours_cleared_flag:
  "\<not> auto_start_trader_pending h \<Longrightarrow>
   poll_runner_ready_then_start_trader_for_coins h w cs = (NotPending, h, w)"
  by (simp add: poll_runner_ready_then_start_trader_for_coins_def)

lemma start_neural_for_coin_keeps_pending:
  "auto_start_trader_pending (fst (snd (start_neural_for_coin h w c))) = auto_start_trader_pending h"
  by (simp add: start_neural_for_coin_def Let_def spawn_def split: option.splits)

lemma start_neural_for_coins_keeps_pending:
  "auto_start_trader_pending (fst (snd (start_neural_for_coins h w cs))) = auto_start_trader_pending h"
proof (induction cs arbitrary: h w)
  case Nil
  then show ?case by simp
next
  case (Cons c cs)
  obtain e h1 w1 where s: "start_neural_for_coin h w c = (e, h1, w1)"
    by (cases "start_neural_for_coin h w c")
  have k: "auto_start_trader_pending h1 = auto_start_trader_pending h"
    using start_neural_for_coin_keeps_pending[of h w c] s by simp
  show ?case
  proof (cases e)
    case None
    then show ?thesis using Cons.IH[of h1 w1] s k by simp
  next
    case (Some a)
    then show ?thesis using s k by simp
  qed
qed

lemma callback_rearms_pending:
  "auto_start_trader_pending (fst (snd (start_neural_then_trader h w)))"
proof -
  let ?h1 = "h\<lparr>auto_start_trader_pending := True, trader_poll_count := Some 0\<rparr>"
  let ?w1 = "log_event (SetPending True) w"
  let ?cs = "filter (coin_is_trained ?h1 ?w1) (coins ?h1)"
  obtain e h2 w2 where s: "start_neural_for_coins ?h1 ?w1 ?cs = (e, h2, w2)"
    by (cases "start_neural_for_coins ?h1 ?w1 ?cs")
  have "auto_start_trader_pending h2"
    using start_neural_for_coins_keeps_pending[of ?h1 ?w1 ?cs] s by simp
  then show ?thesis
    using s by (cases e) (simp_all add: start_neural_then_trader_def Let_def)
qed

text \<open>
  C8. A stop-all that arrives while the poll is running is honoured: the next poll run
  finds the flag cleared and returns (first lemma above). A stop-all that arrives between
  the tick that saw all coins trained and the callback that the tick scheduled is not:
  \<open>_start_neural_then_trader\<close> sets the flag again without looking at it (last lemma
  above). The run below is such an execution. The tick schedules the callback; stop-all
  clears the flag and asks the runner (pid 2) to terminate; the callback fires, sets the
  flag, spawns BTC's runner (pid 3) and schedules the poll; when the poll runs, pid 2 has
  not exited yet and the new runner has reported ready, and the poll spawns the trader
  (pid 4).
\<close>

theorem stop_all_before_callback_is_overridden:
  "(case tick start_all_hub start_all_world [] of
      (h1, w1) \<Rightarrow>
        auto_start_trader_pending h1 \<and> timers w1 = [(5, StartNeuralThenTrader)] \<and>
        (case stop_all_scripts h1 w1 of
           (h2, w2) \<Rightarrow>
             \<not> auto_start_trader_pending h2 \<and> timers w2 = [(5, StartNeuralThenTrader)] \<and>
             Terminate 2 \<in> set (events w2) \<and>
             (case start_neural_then_trader h2 (fired (5, StartNeuralThenTrader) w2) of
                (e, h3, w3) \<Rightarrow>
                  e = None \<and> auto_start_trader_pending h3 \<and>
                  timers w3 = [(500, PollForCoins [''BTC''])] \<and>
                  (case poll_runner_ready_then_start_trader_for_coins h3
                          (fired (500, PollForCoins [''BTC''])
                             (w3\<lparr>runner_ready_json := ReadyDict True ''ready''\<rparr>))
                          [''BTC''] of
                     (out, h4, w4) \<Rightarrow>
                       out = Ready \<and> proc (proc_trader h4) = Some 4 \<and> 4 \<in> alive w4 \<and>
                       last (events w4) = Spawned 4 [''python'', ''-u'', ''/pt/pt_trader.py''] ''/pt''))))"
  by (simp add: start_all_hub_def start_all_world_def sample_defs path_defs op_defs seq_defs Let_def)

end
